theory Spec2Isabelle
  imports Main "HOL-Library.Word"
begin

unbundle bit_operations_syntax

section \<open>Data model of the RAID-5 stripe engine (raid5.c)\<close>

text \<open>
  Conventions of the embedding.
  \<^item> \<open>uint64_t\<close>, \<open>size_t\<close> and \<open>uint8_t\<close> quantities are natural numbers; a subtraction that
    the source performs without a guarding comparison is written with its wrap-around
    (\<open>u64_sub\<close>, \<open>u8_sub\<close>).  Counters of C type \<open>int\<close> are integers, error codes of C type
    \<open>int\<close> are 32-bit words read with \<open>sint\<close>.
  \<^item> A pointer into \<open>stripe_req->chunks\<close> is the index of the chunk in that array
    (the source itself recovers the index as \<open>chunk - stripe_req->chunks\<close>).
  \<^item> An \<open>iovec\<close> is the list of the bytes in \<open>[iov_base, iov_base + iov_len)\<close>; the scratch
    buffers of a stripe and the buffers of the upstream request are distinct allocations.
  \<^item> Calls that leave the module (base bdev I/O, thread messages, the upstream completion,
    the callback of a wait entry) are recorded, in order, in the \<open>trace\<close> of the world.
\<close>

type_synonym byte = "8 word"
type_synonym iovec = "byte list"

datatype spdk_bdev_io_status =
  SPDK_BDEV_IO_STATUS_SUCCESS | SPDK_BDEV_IO_STATUS_NOMEM | SPDK_BDEV_IO_STATUS_FAILED

datatype spdk_bdev_io_type = SPDK_BDEV_IO_TYPE_READ | SPDK_BDEV_IO_TYPE_WRITE

datatype chunk_request_type = CHUNK_READ | CHUNK_WRITE | CHUNK_PREREAD

definition u64_sub :: "nat \<Rightarrow> nat \<Rightarrow> nat" where
  "u64_sub a b = (if b \<le> a then a - b else (a + 2 ^ 64 - b) mod 2 ^ 64)"

definition u8_sub :: "nat \<Rightarrow> nat \<Rightarrow> nat" where
  "u8_sub a b = (if b \<le> a then a - b else (a + 2 ^ 8 - b) mod 2 ^ 8)"

subsection \<open>Error codes\<close>

definition ENOMEM :: "32 word" where "ENOMEM = 12"
definition EINVAL :: "32 word" where "EINVAL = 22"

text \<open>\<open>abs\<close> of the C library on a 32-bit \<open>int\<close>; at \<open>INT_MIN\<close> the negation wraps.\<close>

definition c_abs :: "32 word \<Rightarrow> 32 word" where
  "c_abs e = (if sint e < 0 then - e else e)"

definition errno_to_status :: "32 word \<Rightarrow> spdk_bdev_io_status" where
  "errno_to_status err =
     (let err = c_abs err in
      if err = 0 then SPDK_BDEV_IO_STATUS_SUCCESS
      else if err = ENOMEM then SPDK_BDEV_IO_STATUS_NOMEM
      else SPDK_BDEV_IO_STATUS_FAILED)"

section \<open>XOR / IOV engine\<close>

definition sizeof_long :: nat where "sizeof_long = 8"

text \<open>
  \<open>raid5_xor_buf\<close> (the variant without ISA-L, the one whose body is in this file):
  \<open>to\<close> and \<open>from\<close> are the bytes starting at the two pointers.  The loop runs over
  \<open>size / sizeof(long)\<close> machine words, that is over the first
  \<open>sizeof(long) * (size / sizeof(long))\<close> bytes; the assertion
  \<open>size % sizeof(long) == 0\<close> of the source says that these are all \<open>size\<close> bytes.
\<close>

definition raid5_xor_buf :: "byte list \<Rightarrow> byte list \<Rightarrow> nat \<Rightarrow> byte list" where
  "raid5_xor_buf to from sz =
     (let n = sizeof_long * (sz div sizeof_long) in
      map2 (XOR) (take n to) (take n from) @ drop n to)"

text \<open>
  The two seek loops of \<open>raid5_xor_iovs\<close> and \<open>raid5_memcpy_iovs\<close>: the result is the
  number of vectors skipped and the offset in the vector reached (\<open>0\<close> when the
  vectors are used up).
\<close>

fun iovs_seek :: "iovec list \<Rightarrow> nat \<Rightarrow> nat \<Rightarrow> nat \<times> nat" where
  "iovs_seek [] n iovs_offset = (0, 0)"
| "iovs_seek (v # vs) n iovs_offset =
     (let n = n + length v in
      if n > iovs_offset then (0, length v - (n - iovs_offset))
      else (let (k, off) = iovs_seek vs n iovs_offset in (Suc k, off)))"

text \<open>
  The main loop, on the vectors from the two cursors on: \<open>op\<close> is what is done to the
  window of \<open>n\<close> bytes (\<open>raid5_xor_buf\<close> or \<open>memcpy\<close>).  The result is the new
  contents of the destination vectors from the cursor on.  A cursor never passes the end
  of its vector (\<open>off1 \<le> v1->iov_len\<close>, \<open>off2 \<le> v2->iov_len\<close>); the first test below only
  makes the function total on the states that the source cannot reach.
\<close>

function iovs_loop :: "(byte list \<Rightarrow> byte list \<Rightarrow> nat \<Rightarrow> byte list) \<Rightarrow>
    iovec list \<Rightarrow> nat \<Rightarrow> iovec list \<Rightarrow> nat \<Rightarrow> nat \<Rightarrow> iovec list" where
  "iovs_loop op [] off1 src off2 sz = []"
| "iovs_loop op (d # ds) off1 [] off2 sz = d # ds"
| "iovs_loop op (d # ds) off1 (s # ss) off2 sz =
     (if off1 > length d \<or> off2 > length s then d # ds
      else if sz > 0 then
        (let n = min (length d - off1) (length s - off2);
             n = (if n > sz then sz else n);
             sz = sz - n;
             d' = take off1 d @ op (drop off1 d) (drop off2 s) n;
             off1 = off1 + n;
             off2 = off2 + n
         in if off1 = length d then
              (if off2 = length s then d' # iovs_loop op ds 0 ss 0 sz
               else d' # iovs_loop op ds 0 (s # ss) off2 sz)
            else
              (if off2 = length s then iovs_loop op (d' # ds) off1 ss 0 sz
               else iovs_loop op (d' # ds) off1 (s # ss) off2 sz))
      else d # ds)"
  by pat_completeness auto
termination
proof (relation "measure (\<lambda>(op, dst, off1, src, off2, sz).
        length dst + length src + (if sz > 0 then 1 else 0))", goal_cases)
  case 1
  show ?case by simp
next
  case (2 op d ds off1 s ss off2 sz n0 n sz' d' off1' off2')
  then show ?case by simp
next
  case (3 op d ds off1 s ss off2 sz n0 n sz' d' off1' off2')
  then show ?case by simp
next
  case (4 op d ds off1 s ss off2 sz n0 n sz' d' off1' off2')
  then show ?case by simp
next
  case (5 op d ds off1 s ss off2 sz n0 n sz' d' off1' off2')
  then have "n = sz" by (simp add: min_def split: if_splits)
  with 5 show ?case by simp
qed

definition iovs_apply :: "(byte list \<Rightarrow> byte list \<Rightarrow> nat \<Rightarrow> byte list) \<Rightarrow>
    iovec list \<Rightarrow> nat \<Rightarrow> iovec list \<Rightarrow> nat \<Rightarrow> nat \<Rightarrow> iovec list" where
  "iovs_apply op iovs_dest iovs_dest_offset iovs_src iovs_src_offset sz =
     (let (k1, off1) = iovs_seek iovs_dest 0 iovs_dest_offset;
          (k2, off2) = iovs_seek iovs_src 0 iovs_src_offset
      in take k1 iovs_dest @ iovs_loop op (drop k1 iovs_dest) off1 (drop k2 iovs_src) off2 sz)"

text \<open>
  \<open>raid5_xor_iovs\<close> and \<open>raid5_memcpy_iovs\<close>: the arguments \<open>(iovs, iovcnt)\<close> of the source
  are the list of the \<open>iovcnt\<close> vectors; the result is the new contents of the
  destination vectors.
\<close>

definition raid5_xor_iovs :: "iovec list \<Rightarrow> nat \<Rightarrow> iovec list \<Rightarrow> nat \<Rightarrow> nat \<Rightarrow> iovec list" where
  "raid5_xor_iovs = iovs_apply raid5_xor_buf"

definition c_memcpy :: "byte list \<Rightarrow> byte list \<Rightarrow> nat \<Rightarrow> byte list" where
  "c_memcpy to from n = take n from @ drop n to"

definition raid5_memcpy_iovs :: "iovec list \<Rightarrow> nat \<Rightarrow> iovec list \<Rightarrow> nat \<Rightarrow> nat \<Rightarrow> iovec list" where
  "raid5_memcpy_iovs = iovs_apply c_memcpy"

definition raid5_memset_iovs :: "iovec list \<Rightarrow> byte \<Rightarrow> iovec list" where
  "raid5_memset_iovs iovs c = map (\<lambda>v. replicate (length v) c) iovs"

section \<open>Chunks, stripe requests, stripes\<close>

text \<open>
  \<open>chunk->iovs\<close> points to the embedded \<open>chunk->iov\<close>, to an array obtained from
  \<open>realloc\<close>, or nowhere (\<open>NULL\<close>, or freed).
\<close>

datatype iovs_ptr = Iovs_embedded | Iovs_heap "iovec list" | Iovs_null

record chunk =
  index :: nat
  req_offset :: nat
  req_blocks :: nat
  preread_offset :: nat
  preread_blocks :: nat
  iovs :: iovs_ptr
  iovcnt :: int
  iov :: iovec
  request_type :: chunk_request_type

text \<open>The vectors \<open>chunk->iovs[0 .. iovcnt)\<close>, and writing through them.\<close>

definition chunk_iovs :: "chunk \<Rightarrow> iovec list" where
  "chunk_iovs c =
     (case iovs c of
        Iovs_embedded \<Rightarrow> take (nat (iovcnt c)) [iov c]
      | Iovs_heap l \<Rightarrow> take (nat (iovcnt c)) l
      | Iovs_null \<Rightarrow> [])"

definition chunk_iovs_update :: "chunk \<Rightarrow> iovec list \<Rightarrow> chunk" where
  "chunk_iovs_update c vs =
     (case iovs c of
        Iovs_embedded \<Rightarrow> (case vs of [] \<Rightarrow> c | v # _ \<Rightarrow> c\<lparr>iov := v\<rparr>)
      | Iovs_heap l \<Rightarrow> c\<lparr>iovs := Iovs_heap (vs @ drop (length vs) l)\<rparr>
      | Iovs_null \<Rightarrow> c)"

record raid_bdev =
  num_base_bdevs :: nat
  strip_size :: nat
  strip_size_shift :: nat
  blocklen :: nat
  base_bdev_degraded :: "bool list"
  base_bdevs_max_degraded :: nat

record raid_bdev_io =
  io_id :: nat
  raid_bdev :: raid_bdev
  raid_ch :: nat
  io_type :: spdk_bdev_io_type
  offset_blocks :: nat
  num_blocks :: nat
  bdev_iovs :: "iovec list"

text \<open>The functions that \<open>chunk_requests_complete_cb\<close> points to.\<close>

datatype callback =
    CB_raid5_complete_stripe_request
  | CB_raid5_stripe_write_preread_complete_rmw
  | CB_raid5_stripe_write_preread_complete
  | CB_raid5_stripe_write_preread_complete_degraded
  | CB_raid5_complete_reconstructed_stripe_request

record stripe_request =
  req_id :: nat
  raid_io :: raid_bdev_io
  stripe :: nat
  remaining :: int
  status :: spdk_bdev_io_status
  chunk_requests_complete_cb :: callback
  iov_offset :: nat
  init_iov_offset :: nat
  first_data_chunk :: nat
  last_data_chunk :: nat
  parity_chunk :: nat
  degraded_chunk :: "nat option"
  chunks :: "chunk list"

record stripe =
  stripe_index :: nat
  hash :: nat
  requests :: "stripe_request list"
  refs :: nat
  chunk_buffers :: "iovec list"

datatype wait_cb = WCB_raid5_submit_rw_request

datatype event =
    Ev_bdev_io nat spdk_bdev_io_type nat nat "iovec list"
  | Ev_send_msg stripe_request
  | Ev_complete_part nat nat spdk_bdev_io_status
  | Ev_wait_cb wait_cb raid_bdev_io

text \<open>
  The state outside a stripe request: \<open>raid5_info\<close> (the array of stripes, the hash of the
  active stripes as an association list from stripe index to the position of the stripe in
  the array, the active and the free list, the pool of stripe requests with the stale
  contents of its objects), the counter \<open>base_bdev_io_remaining\<close> of each upstream request,
  the retry queue of each channel, the results of the coming calls of \<open>realloc\<close>
  (\<open>False\<close> for \<open>NULL\<close>; success once the list is used up), and the trace.
  \<open>raid_max_stripes\<close> is the constant \<open>RAID_MAX_STRIPES\<close> of bdev_raid.h and \<open>rte_hash_hash\<close>
  the hash function of the DPDK table; both are parameters here.
\<close>

record world =
  stripes :: "stripe list"
  active_stripes_hash :: "(nat \<times> nat) list"
  active_stripes :: "nat list"
  free_stripes :: "nat list"
  stripe_request_mempool :: "stripe_request list"
  base_bdev_io_remaining :: "nat \<Rightarrow> nat"
  retry_queue :: "nat \<Rightarrow> (wait_cb \<times> raid_bdev_io) list"
  realloc_results :: "bool list"
  trace :: "event list"
  raid_max_stripes :: nat
  rte_hash_hash :: "nat \<Rightarrow> nat"

subsection \<open>The iteration macros and the index helpers\<close>

definition for_each_chunk :: "stripe_request \<Rightarrow> nat list" where
  "for_each_chunk stripe_req = [0 ..< num_base_bdevs (raid_bdev (raid_io stripe_req))]"

text \<open>
  \<open>FOR_EACH_DATA_CHUNK\<close> steps through the chunks and jumps over the parity chunk
  (\<open>__NEXT_DATA_CHUNK\<close>).
\<close>

definition for_each_data_chunk :: "stripe_request \<Rightarrow> nat list" where
  "for_each_data_chunk stripe_req =
     filter (\<lambda>c. c \<noteq> parity_chunk stripe_req) (for_each_chunk stripe_req)"

definition raid5_chunk_data_index :: "stripe_request \<Rightarrow> nat \<Rightarrow> nat" where
  "raid5_chunk_data_index stripe_req c =
     (let chunk = chunks stripe_req ! c in
      if c < parity_chunk stripe_req then index chunk else u8_sub (index chunk) 1)"

definition raid5_get_data_chunk :: "stripe_request \<Rightarrow> nat \<Rightarrow> nat" where
  "raid5_get_data_chunk stripe_req chunk_data_idx =
     (let p_chunk_idx = parity_chunk stripe_req mod 2 ^ 8 in
      if chunk_data_idx < p_chunk_idx then chunk_data_idx else chunk_data_idx + 1)"

definition raid5_stripe_data_chunks_num :: "raid_bdev \<Rightarrow> nat" where
  "raid5_stripe_data_chunks_num rb = u8_sub (num_base_bdevs rb) (base_bdevs_max_degraded rb)"

subsection \<open>Mapping the upstream vectors into a chunk\<close>

text \<open>The loop that finds the start vector: \<open>Some (start_v, off)\<close>, or \<open>None\<close> for \<open>start_v == -1\<close>.\<close>

fun map_iov_start :: "iovec list \<Rightarrow> nat \<Rightarrow> nat \<Rightarrow> nat \<Rightarrow> (nat \<times> nat) option" where
  "map_iov_start [] i off offset = None"
| "map_iov_start (v # vs) i off offset =
     (if off + length v > offset then Some (i, off)
      else map_iov_start vs (Suc i) (off + length v) offset)"

text \<open>The loop that finds the end vector, on the vectors from \<open>start_v\<close> on: \<open>new_iovcnt\<close>.\<close>

fun map_iov_count :: "iovec list \<Rightarrow> nat \<Rightarrow> nat \<Rightarrow> nat" where
  "map_iov_count [] off lim = 0"
| "map_iov_count (v # vs) off lim =
     (if off + length v \<ge> lim then 1 else 1 + map_iov_count vs (off + length v) lim)"

text \<open>
  The loop that fills \<open>chunk->iovs[0 .. new_iovcnt)\<close>: the vectors written and what is
  left of \<open>len\<close>.
\<close>

fun map_iov_fill :: "iovec list \<Rightarrow> nat \<Rightarrow> nat \<Rightarrow> nat \<Rightarrow> nat \<Rightarrow> iovec list \<times> nat" where
  "map_iov_fill [] off offset len k = ([], len)"
| "map_iov_fill (v # vs) off offset len k =
     (if k = 0 then ([], len)
      else
        (let e = take (min len (length v - (offset - off))) (drop (offset - off) v);
             (es, len') = map_iov_fill vs (off + length v) (offset + length e) (len - length e) (k - 1)
         in (e # es, len')))"

text \<open>\<open>realloc\<close>: the next result of the world.\<close>

definition c_realloc :: "world \<Rightarrow> bool \<times> world" where
  "c_realloc w =
     (case realloc_results w of
        [] \<Rightarrow> (True, w)
      | r # rs \<Rightarrow> (r, w\<lparr>realloc_results := rs\<rparr>))"

text \<open>
  \<open>raid5_chunk_map_iov\<close>: the return value, the world and the chunk.  When the array is
  not grown the vectors are written where \<open>chunk->iovs\<close> points, which for the embedded
  vector is \<open>chunk->iov\<close> itself.
\<close>

definition raid5_chunk_map_iov ::
    "world \<Rightarrow> chunk \<Rightarrow> iovec list \<Rightarrow> nat \<Rightarrow> nat \<Rightarrow> 32 word \<times> world \<times> chunk" where
  "raid5_chunk_map_iov w chunk iov_list offset len =
     (case map_iov_start iov_list 0 0 offset of
        None \<Rightarrow> (- EINVAL, w, chunk)
      | Some (start_v, start_v_off) \<Rightarrow>
          (let new_iovcnt = map_iov_count (drop start_v iov_list) start_v_off (offset + len);
               (es, len') = map_iov_fill (drop start_v iov_list) start_v_off offset len new_iovcnt;
               ret = (if len' > 0 then - EINVAL else 0)
           in if int new_iovcnt > iovcnt chunk then
                (let (ok, w) = c_realloc w in
                 if \<not> ok then
                   (- ENOMEM, w,
                    if iovs chunk = Iovs_embedded then chunk\<lparr>iovs := Iovs_null\<rparr> else chunk)
                 else (ret, w, chunk\<lparr>iovs := Iovs_heap es, iovcnt := int new_iovcnt\<rparr>))
              else (ret, w, chunk_iovs_update (chunk\<lparr>iovcnt := int new_iovcnt\<rparr>) es)))"

definition raid5_chunk_map_req_data ::
    "world \<Rightarrow> stripe_request \<Rightarrow> nat \<Rightarrow> 32 word \<times> world \<times> stripe_request" where
  "raid5_chunk_map_req_data w stripe_req c =
     (let chunk = chunks stripe_req ! c;
          bdev_io = raid_io stripe_req;
          len = req_blocks chunk * blocklen (raid_bdev bdev_io);
          (ret, w, chunk) = raid5_chunk_map_iov w chunk (bdev_iovs bdev_io) (iov_offset stripe_req) len;
          stripe_req = stripe_req\<lparr>chunks := (chunks stripe_req)[c := chunk]\<rparr>
      in if ret = 0 then (ret, w, stripe_req\<lparr>iov_offset := iov_offset stripe_req + len\<rparr>)
         else (ret, w, stripe_req))"

subsection \<open>Completion of a stripe request\<close>

definition raid5_io_channel_retry_request :: "world \<Rightarrow> nat \<Rightarrow> world" where
  "raid5_io_channel_retry_request w r5ch =
     (case retry_queue w r5ch of
        [] \<Rightarrow> w
      | (cb_fn, cb_arg) # rest \<Rightarrow>
          w\<lparr>retry_queue := (retry_queue w)(r5ch := rest),
            trace := trace w @ [Ev_wait_cb cb_fn cb_arg]\<rparr>)"

text \<open>
  \<open>raid5_stripe_request_put\<close>: the arrays from \<open>realloc\<close> are freed and the object goes
  back to the pool as it is.
\<close>

definition raid5_stripe_request_put :: "world \<Rightarrow> stripe_request \<Rightarrow> world \<times> stripe_request" where
  "raid5_stripe_request_put w stripe_req =
     (let stripe_req = stripe_req\<lparr>chunks :=
            map (\<lambda>chunk. if iovs chunk \<noteq> Iovs_embedded then chunk\<lparr>iovs := Iovs_null\<rparr> else chunk)
                (chunks stripe_req)\<rparr>
      in (w\<lparr>stripe_request_mempool := stripe_request_mempool w @ [stripe_req]\<rparr>, stripe_req))"

text \<open>
  Modelled from the spec: \<open>raid_bdev_io_complete_part\<close> of the enclosing RAID framework
  (bdev_raid.c is not part of the sources).  "Returns true iff all parts have completed":
  the blocks are taken off \<open>base_bdev_io_remaining\<close> and the call is recorded.
\<close>

definition raid_bdev_io_complete_part ::
    "world \<Rightarrow> raid_bdev_io \<Rightarrow> nat \<Rightarrow> spdk_bdev_io_status \<Rightarrow> bool \<times> world" where
  "raid_bdev_io_complete_part w io completed st =
     (let left = u64_sub (base_bdev_io_remaining w (io_id io)) completed
      in (left = 0,
          w\<lparr>base_bdev_io_remaining := (base_bdev_io_remaining w)(io_id io := left),
            trace := trace w @ [Ev_complete_part (io_id io) completed st]\<rparr>))"

text \<open>\<open>TAILQ_NEXT\<close> and \<open>TAILQ_REMOVE\<close> on the requests of a stripe; an object is its \<open>req_id\<close>.\<close>

fun tailq_next :: "stripe_request list \<Rightarrow> nat \<Rightarrow> stripe_request option" where
  "tailq_next [] i = None"
| "tailq_next (r # rs) i =
     (if req_id r = i then (case rs of [] \<Rightarrow> None | n # _ \<Rightarrow> Some n) else tailq_next rs i)"

fun tailq_remove :: "stripe_request list \<Rightarrow> nat \<Rightarrow> stripe_request list" where
  "tailq_remove [] i = []"
| "tailq_remove (r # rs) i = (if req_id r = i then rs else r # tailq_remove rs i)"

definition raid5_complete_stripe_request ::
    "world \<Rightarrow> stripe_request \<Rightarrow> world \<times> stripe_request" where
  "raid5_complete_stripe_request w stripe_req =
     (let sid = stripe stripe_req;
          io = raid_io stripe_req;
          st = status stripe_req;
          r5ch = raid_ch io;
          next_req = tailq_next (requests (stripes w ! sid)) (req_id stripe_req);
          w = w\<lparr>stripes := (stripes w)[sid := (stripes w ! sid)
                 \<lparr>requests := tailq_remove (requests (stripes w ! sid)) (req_id stripe_req)\<rparr>]\<rparr>;
          w = (case next_req of None \<Rightarrow> w | Some n \<Rightarrow> w\<lparr>trace := trace w @ [Ev_send_msg n]\<rparr>);
          blocks = sum_list (map (\<lambda>c. req_blocks (chunks stripe_req ! c))
                                 (for_each_data_chunk stripe_req));
          (w, stripe_req) = raid5_stripe_request_put w stripe_req;
          (fin, w) = raid_bdev_io_complete_part w io blocks st
      in if fin then
           (let w = w\<lparr>stripes := (stripes w)[sid := (stripes w ! sid)
                      \<lparr>refs := (refs (stripes w ! sid) + 2 ^ 32 - 1) mod 2 ^ 32\<rparr>]\<rparr>
            in if retry_queue w r5ch \<noteq> [] then (raid5_io_channel_retry_request w r5ch, stripe_req)
               else (w, stripe_req))
         else (w, stripe_req))"

definition raid5_abort_stripe_request ::
    "world \<Rightarrow> stripe_request \<Rightarrow> spdk_bdev_io_status \<Rightarrow> world \<times> stripe_request" where
  "raid5_abort_stripe_request w stripe_req st =
     raid5_complete_stripe_request w (stripe_req\<lparr>remaining := 0, status := st\<rparr>)"

subsection \<open>Submission of chunk requests\<close>

text \<open>
  \<open>_raid5_submit_chunk_request\<close>: the read or write handed to the base bdev is recorded
  with the contents of the vectors at that moment.  A submission refused with \<open>-ENOMEM\<close>
  is queued on the base bdev and enters this function again with the same chunk; it
  changes nothing in the stripe request.
\<close>

definition raid5_submit_chunk_request_inner :: "world \<Rightarrow> stripe_request \<Rightarrow> nat \<Rightarrow> world" where
  "raid5_submit_chunk_request_inner w stripe_req c =
     (let chunk = chunks stripe_req ! c;
          rb = raid_bdev (raid_io stripe_req);
          (offset_blocks, nblocks, ty) =
            (if request_type chunk = CHUNK_PREREAD
             then (preread_offset chunk, preread_blocks chunk, SPDK_BDEV_IO_TYPE_READ)
             else (req_offset chunk, req_blocks chunk,
                   if request_type chunk = CHUNK_READ then SPDK_BDEV_IO_TYPE_READ
                   else SPDK_BDEV_IO_TYPE_WRITE));
          base_offset_blocks =
            stripe_index (stripes w ! stripe stripe_req) * 2 ^ strip_size_shift rb + offset_blocks
      in w\<lparr>trace := trace w @
            [Ev_bdev_io (index chunk) ty base_offset_blocks nblocks (chunk_iovs chunk)]\<rparr>)"

definition raid5_submit_chunk_request ::
    "world \<Rightarrow> stripe_request \<Rightarrow> nat \<Rightarrow> chunk_request_type \<Rightarrow> world \<times> stripe_request" where
  "raid5_submit_chunk_request w stripe_req c ty =
     (let stripe_req = stripe_req\<lparr>remaining := remaining stripe_req + 1\<rparr>;
          stripe_req = stripe_req\<lparr>chunks :=
            (chunks stripe_req)[c := (chunks stripe_req ! c)\<lparr>request_type := ty\<rparr>]\<rparr>
      in (raid5_submit_chunk_request_inner w stripe_req c, stripe_req))"

fun stripe_write_submit_loop ::
    "world \<Rightarrow> stripe_request \<Rightarrow> nat list \<Rightarrow> world \<times> stripe_request" where
  "stripe_write_submit_loop w stripe_req [] = (w, stripe_req)"
| "stripe_write_submit_loop w stripe_req (c # cs) =
     (if req_blocks (chunks stripe_req ! c) > 0 \<and> Some c \<noteq> degraded_chunk stripe_req then
        (let (w, stripe_req) = raid5_submit_chunk_request w stripe_req c CHUNK_WRITE
         in stripe_write_submit_loop w stripe_req cs)
      else stripe_write_submit_loop w stripe_req cs)"

definition raid5_stripe_write_submit :: "world \<Rightarrow> stripe_request \<Rightarrow> world \<times> stripe_request" where
  "raid5_stripe_write_submit w stripe_req =
     stripe_write_submit_loop w
       (stripe_req\<lparr>chunk_requests_complete_cb := CB_raid5_complete_stripe_request\<rparr>)
       (for_each_chunk stripe_req)"

subsection \<open>Parity computation for writes\<close>

text \<open>
  \<open>raid5_xor_iovs\<close>, \<open>raid5_memcpy_iovs\<close> and \<open>raid5_memset_iovs\<close> with the vectors of
  chunk \<open>dc\<close> as destination.
\<close>

definition chunk_xor ::
    "stripe_request \<Rightarrow> nat \<Rightarrow> nat \<Rightarrow> iovec list \<Rightarrow> nat \<Rightarrow> nat \<Rightarrow> stripe_request" where
  "chunk_xor stripe_req dc dest_offset src src_offset sz =
     stripe_req\<lparr>chunks := (chunks stripe_req)[dc :=
       chunk_iovs_update (chunks stripe_req ! dc)
         (raid5_xor_iovs (chunk_iovs (chunks stripe_req ! dc)) dest_offset src src_offset sz)]\<rparr>"

definition chunk_memcpy ::
    "stripe_request \<Rightarrow> nat \<Rightarrow> nat \<Rightarrow> iovec list \<Rightarrow> nat \<Rightarrow> nat \<Rightarrow> stripe_request" where
  "chunk_memcpy stripe_req dc dest_offset src src_offset sz =
     stripe_req\<lparr>chunks := (chunks stripe_req)[dc :=
       chunk_iovs_update (chunks stripe_req ! dc)
         (raid5_memcpy_iovs (chunk_iovs (chunks stripe_req ! dc)) dest_offset src src_offset sz)]\<rparr>"

definition chunk_memset :: "stripe_request \<Rightarrow> nat \<Rightarrow> byte \<Rightarrow> stripe_request" where
  "chunk_memset stripe_req dc c =
     stripe_req\<lparr>chunks := (chunks stripe_req)[dc :=
       chunk_iovs_update (chunks stripe_req ! dc)
         (raid5_memset_iovs (chunk_iovs (chunks stripe_req ! dc)) c)]\<rparr>"

text \<open>
  The loop of \<open>raid5_stripe_write_preread_complete_rmw\<close> over the data chunks; it stops
  with the return value of a failed \<open>raid5_chunk_map_req_data\<close>.
\<close>

fun rmw_loop :: "world \<Rightarrow> stripe_request \<Rightarrow> nat list \<Rightarrow> 32 word \<times> world \<times> stripe_request" where
  "rmw_loop w stripe_req [] = (0, w, stripe_req)"
| "rmw_loop w stripe_req (c # cs) =
     (let chunk = chunks stripe_req ! c;
          p = parity_chunk stripe_req;
          bl = blocklen (raid_bdev (raid_io stripe_req))
      in if req_blocks chunk = 0 then rmw_loop w stripe_req cs
         else
           (let dest_offset = u64_sub (req_offset chunk) (req_offset (chunks stripe_req ! p)) * bl;
                stripe_req = chunk_xor stripe_req p dest_offset (chunk_iovs chunk) 0
                               (req_blocks chunk * bl);
                (ret, w, stripe_req) = raid5_chunk_map_req_data w stripe_req c
            in if ret \<noteq> 0 then (ret, w, stripe_req)
               else rmw_loop w
                      (chunk_xor stripe_req p dest_offset (chunk_iovs (chunks stripe_req ! c)) 0
                         (req_blocks (chunks stripe_req ! c) * bl)) cs))"

definition raid5_stripe_write_preread_complete_rmw ::
    "world \<Rightarrow> stripe_request \<Rightarrow> world \<times> stripe_request" where
  "raid5_stripe_write_preread_complete_rmw w stripe_req =
     (let (ret, w, stripe_req) = rmw_loop w stripe_req (for_each_data_chunk stripe_req)
      in if ret \<noteq> 0 then raid5_abort_stripe_request w stripe_req (errno_to_status ret)
         else raid5_stripe_write_submit w stripe_req)"

text \<open>The loop of \<open>raid5_stripe_write_preread_complete\<close> (reconstruct-write).\<close>

fun rcw_loop :: "world \<Rightarrow> stripe_request \<Rightarrow> nat list \<Rightarrow> 32 word \<times> world \<times> stripe_request" where
  "rcw_loop w stripe_req [] = (0, w, stripe_req)"
| "rcw_loop w stripe_req (c # cs) =
     (let chunk = chunks stripe_req ! c;
          p = parity_chunk stripe_req;
          bl = blocklen (raid_bdev (raid_io stripe_req));
          stripe_req =
            (if preread_blocks chunk > 0 then
               chunk_xor stripe_req p
                 (u64_sub (preread_offset chunk) (req_offset (chunks stripe_req ! p)) * bl)
                 (chunk_iovs chunk) 0 (preread_blocks chunk * bl)
             else stripe_req)
      in if req_blocks chunk > 0 then
           (let (ret, w, stripe_req) = raid5_chunk_map_req_data w stripe_req c
            in if ret \<noteq> 0 then (ret, w, stripe_req)
               else rcw_loop w
                      (chunk_xor stripe_req p
                         (u64_sub (req_offset (chunks stripe_req ! c))
                                  (req_offset (chunks stripe_req ! p)) * bl)
                         (chunk_iovs (chunks stripe_req ! c)) 0
                         (req_blocks (chunks stripe_req ! c) * bl)) cs)
         else rcw_loop w stripe_req cs)"

definition raid5_stripe_write_preread_complete ::
    "world \<Rightarrow> stripe_request \<Rightarrow> world \<times> stripe_request" where
  "raid5_stripe_write_preread_complete w stripe_req =
     (let stripe_req = chunk_memset stripe_req (parity_chunk stripe_req) 0;
          (ret, w, stripe_req) = rcw_loop w stripe_req (for_each_data_chunk stripe_req)
      in if ret \<noteq> 0 then raid5_abort_stripe_request w stripe_req (errno_to_status ret)
         else raid5_stripe_write_submit w stripe_req)"

text \<open>Binding the scratch buffer of the stripe: \<open>chunk->iov = (chunk_buffers[index], len)\<close>.\<close>

definition chunk_bind_buffer :: "world \<Rightarrow> stripe_request \<Rightarrow> nat \<Rightarrow> nat \<Rightarrow> stripe_request" where
  "chunk_bind_buffer w stripe_req c len =
     stripe_req\<lparr>chunks := (chunks stripe_req)[c := (chunks stripe_req ! c)
       \<lparr>iov := take len (chunk_buffers (stripes w ! stripe stripe_req)
                          ! index (chunks stripe_req ! c))\<rparr>]\<rparr>"

definition chunk_set_preread :: "stripe_request \<Rightarrow> nat \<Rightarrow> nat \<Rightarrow> nat \<Rightarrow> stripe_request" where
  "chunk_set_preread stripe_req c off blocks =
     stripe_req\<lparr>chunks := (chunks stripe_req)[c := (chunks stripe_req ! c)
       \<lparr>preread_offset := off, preread_blocks := blocks\<rparr>]\<rparr>"

definition chunk_set_req :: "stripe_request \<Rightarrow> nat \<Rightarrow> nat \<Rightarrow> nat \<Rightarrow> stripe_request" where
  "chunk_set_req stripe_req c off blocks =
     stripe_req\<lparr>chunks := (chunks stripe_req)[c := (chunks stripe_req ! c)
       \<lparr>req_offset := off, req_blocks := blocks\<rparr>]\<rparr>"

text \<open>\<open>raid5_stripe_write_preread_complete_degraded\<close>: its three loops.\<close>

fun degraded_rebuild_loop :: "stripe_request \<Rightarrow> nat \<Rightarrow> nat list \<Rightarrow> stripe_request" where
  "degraded_rebuild_loop stripe_req d [] = stripe_req"
| "degraded_rebuild_loop stripe_req d (c # cs) =
     (if c \<noteq> d then
        (let d_chunk = chunks stripe_req ! d;
             chunk = chunks stripe_req ! c;
             bl = blocklen (raid_bdev (raid_io stripe_req));
             src_offset = u64_sub (preread_offset d_chunk) (preread_offset chunk) * bl
         in degraded_rebuild_loop
              (chunk_xor stripe_req d 0 (chunk_iovs chunk) src_offset (preread_blocks d_chunk * bl))
              d cs)
      else degraded_rebuild_loop stripe_req d cs)"

fun degraded_parity_loop ::
    "world \<Rightarrow> stripe_request \<Rightarrow> nat list \<Rightarrow> 32 word \<times> world \<times> stripe_request" where
  "degraded_parity_loop w stripe_req [] = (0, w, stripe_req)"
| "degraded_parity_loop w stripe_req (c # cs) =
     (let chunk = chunks stripe_req ! c;
          p = parity_chunk stripe_req;
          p_chunk = chunks stripe_req ! p;
          rb = raid_bdev (raid_io stripe_req);
          bl = blocklen rb;
          (real_preread_offset, real_preread_blocks) =
            (if req_offset chunk \<noteq> 0 then (0, req_offset chunk)
             else (req_blocks chunk, u64_sub (strip_size rb) (req_blocks chunk)));
          stripe_req =
            (if real_preread_blocks > 0 then
               chunk_xor stripe_req p
                 (u64_sub real_preread_offset (req_offset p_chunk) * bl)
                 (chunk_iovs chunk)
                 (u64_sub real_preread_offset (preread_offset p_chunk) * bl)
                 (real_preread_blocks * bl)
             else stripe_req)
      in if req_blocks chunk > 0 then
           (let (ret, w, stripe_req) = raid5_chunk_map_req_data w stripe_req c
            in if ret \<noteq> 0 then (ret, w, stripe_req)
               else degraded_parity_loop w
                      (chunk_xor stripe_req p
                         (u64_sub (req_offset (chunks stripe_req ! c))
                                  (req_offset (chunks stripe_req ! p)) * bl)
                         (chunk_iovs (chunks stripe_req ! c)) 0
                         (req_blocks (chunks stripe_req ! c) * bl)) cs)
         else degraded_parity_loop w stripe_req cs)"

definition raid5_stripe_write_preread_complete_degraded ::
    "world \<Rightarrow> stripe_request \<Rightarrow> world \<times> stripe_request" where
  "raid5_stripe_write_preread_complete_degraded w stripe_req =
     (let d = the (degraded_chunk stripe_req);
          p = parity_chunk stripe_req;
          bl = blocklen (raid_bdev (raid_io stripe_req));
          (ret, w, stripe_req) =
            (if preread_blocks (chunks stripe_req ! p) \<noteq> 0 then
               (let p_chunk = chunks stripe_req ! p;
                    stripe_req = chunk_set_preread stripe_req d
                                   (preread_offset p_chunk) (preread_blocks p_chunk);
                    stripe_req = chunk_bind_buffer w stripe_req d (preread_blocks p_chunk * bl);
                    stripe_req = chunk_memset stripe_req d 0;
                    stripe_req = degraded_rebuild_loop stripe_req d (for_each_chunk stripe_req);
                    stripe_req = chunk_memset stripe_req p 0
                in degraded_parity_loop w stripe_req (for_each_data_chunk stripe_req))
             else
               rcw_loop w (chunk_memset stripe_req p 0) (for_each_data_chunk stripe_req))
      in if ret \<noteq> 0 then raid5_abort_stripe_request w stripe_req (errno_to_status ret)
         else raid5_stripe_write_submit w stripe_req)"

subsection \<open>Completion of a reconstructing read\<close>

fun reconstruct_loop :: "stripe_request \<Rightarrow> nat \<Rightarrow> nat list \<Rightarrow> stripe_request" where
  "reconstruct_loop stripe_req d [] = stripe_req"
| "reconstruct_loop stripe_req d (c # cs) =
     (if c \<noteq> d then
        (let d_chunk = chunks stripe_req ! d;
             chunk = chunks stripe_req ! c;
             bl = blocklen (raid_bdev (raid_io stripe_req));
             src_offset =
               (if request_type chunk = CHUNK_PREREAD
                then u64_sub (req_offset d_chunk) (preread_offset chunk) * bl
                else u64_sub (req_offset d_chunk) (req_offset chunk) * bl)
         in reconstruct_loop
              (chunk_xor stripe_req d 0 (chunk_iovs chunk) src_offset (req_blocks d_chunk * bl))
              d cs)
      else reconstruct_loop stripe_req d cs)"

text \<open>
  The second loop of \<open>raid5_complete_reconstructed_stripe_request\<close>.  \<open>preread_iovs\<close> is the
  pointer \<open>chunk->iovs\<close> taken before the chunk is mapped: when it is the embedded vector
  and the mapping writes that vector, it points to what the mapping wrote.  After a failed
  mapping the source calls \<open>raid5_abort_stripe_request\<close> and goes on with the loop.
\<close>

fun reconstruct_copy_loop ::
    "world \<Rightarrow> stripe_request \<Rightarrow> nat \<Rightarrow> nat list \<Rightarrow> world \<times> stripe_request" where
  "reconstruct_copy_loop w stripe_req d [] = (w, stripe_req)"
| "reconstruct_copy_loop w stripe_req d (c # cs) =
     (let chunk = chunks stripe_req ! c;
          bl = blocklen (raid_bdev (raid_io stripe_req));
          len = req_blocks chunk * bl
      in if req_blocks chunk > 0 \<and> c \<noteq> d \<and> request_type chunk = CHUNK_PREREAD then
           (let preread_ptr = iovs chunk;
                preread_iovcnt = iovcnt chunk;
                (ret, w, stripe_req) = raid5_chunk_map_req_data w stripe_req c;
                (w, stripe_req) =
                  (if ret \<noteq> 0 then raid5_abort_stripe_request w stripe_req (errno_to_status ret)
                   else (w, stripe_req));
                chunk = chunks stripe_req ! c;
                preread_iovs =
                  (case preread_ptr of
                     Iovs_embedded \<Rightarrow> take (nat preread_iovcnt) [iov chunk]
                   | Iovs_heap l \<Rightarrow> take (nat preread_iovcnt) (chunk_iovs chunk)
                   | Iovs_null \<Rightarrow> []);
                src_offset = u64_sub (req_offset chunk) (preread_offset chunk) * bl
            in reconstruct_copy_loop w
                 (chunk_memcpy stripe_req c 0 preread_iovs src_offset (req_blocks chunk * bl))
                 d cs)
         else reconstruct_copy_loop w (stripe_req\<lparr>iov_offset := iov_offset stripe_req + len\<rparr>) d cs)"

definition raid5_complete_reconstructed_stripe_request ::
    "world \<Rightarrow> stripe_request \<Rightarrow> world \<times> stripe_request" where
  "raid5_complete_reconstructed_stripe_request w stripe_req =
     (let d = the (degraded_chunk stripe_req);
          stripe_req = chunk_memset stripe_req d 0;
          stripe_req = reconstruct_loop stripe_req d (for_each_chunk stripe_req);
          stripe_req = stripe_req\<lparr>iov_offset := init_iov_offset stripe_req\<rparr>;
          (w, stripe_req) = reconstruct_copy_loop w stripe_req d (for_each_data_chunk stripe_req)
      in raid5_complete_stripe_request w stripe_req)"

subsection \<open>Completion of a chunk request\<close>

text \<open>The call \<open>stripe_req->chunk_requests_complete_cb(stripe_req)\<close>.\<close>

definition call_chunk_requests_complete_cb ::
    "world \<Rightarrow> stripe_request \<Rightarrow> world \<times> stripe_request" where
  "call_chunk_requests_complete_cb w stripe_req =
     (case chunk_requests_complete_cb stripe_req of
        CB_raid5_complete_stripe_request \<Rightarrow> raid5_complete_stripe_request w stripe_req
      | CB_raid5_stripe_write_preread_complete_rmw \<Rightarrow>
          raid5_stripe_write_preread_complete_rmw w stripe_req
      | CB_raid5_stripe_write_preread_complete \<Rightarrow>
          raid5_stripe_write_preread_complete w stripe_req
      | CB_raid5_stripe_write_preread_complete_degraded \<Rightarrow>
          raid5_stripe_write_preread_complete_degraded w stripe_req
      | CB_raid5_complete_reconstructed_stripe_request \<Rightarrow>
          raid5_complete_reconstructed_stripe_request w stripe_req)"

text \<open>
  \<open>raid5_complete_chunk_request\<close>, called by the base bdev when the I/O of a chunk of
  \<open>stripe_req\<close> is done.
\<close>

definition raid5_complete_chunk_request ::
    "world \<Rightarrow> stripe_request \<Rightarrow> bool \<Rightarrow> world \<times> stripe_request" where
  "raid5_complete_chunk_request w stripe_req success =
     (let stripe_req =
            (if \<not> success then stripe_req\<lparr>status := SPDK_BDEV_IO_STATUS_FAILED\<rparr> else stripe_req);
          stripe_req = stripe_req\<lparr>remaining := remaining stripe_req - 1\<rparr>
      in if remaining stripe_req = 0 then
           (if status stripe_req = SPDK_BDEV_IO_STATUS_SUCCESS
            then call_chunk_requests_complete_cb w stripe_req
            else raid5_complete_stripe_request w stripe_req)
         else (w, stripe_req))"

subsection \<open>Planning a write\<close>

text \<open>
  The parity window: the range of the single chunk written, or the whole strip when the
  request touches more than one chunk.
\<close>

definition set_parity_window :: "stripe_request \<Rightarrow> stripe_request" where
  "set_parity_window stripe_req =
     (let p = parity_chunk stripe_req; f = first_data_chunk stripe_req
      in if f = last_data_chunk stripe_req
         then chunk_set_req stripe_req p (req_offset (chunks stripe_req ! f))
                (req_blocks (chunks stripe_req ! f))
         else chunk_set_req stripe_req p 0 (strip_size (raid_bdev (raid_io stripe_req))))"

text \<open>
  The end of the body of the planning loops of \<open>raid5_stripe_write\<close> and
  \<open>raid5_degraded_write\<close>: bind the scratch buffer, submit the preread.
\<close>

definition bind_and_preread :: "world \<Rightarrow> stripe_request \<Rightarrow> nat \<Rightarrow> world \<times> stripe_request" where
  "bind_and_preread w stripe_req c =
     (let p = parity_chunk stripe_req;
          bl = blocklen (raid_bdev (raid_io stripe_req));
          chunk = chunks stripe_req ! c;
          stripe_req =
            (if preread_blocks chunk \<noteq> 0 \<or> c = p then
               chunk_bind_buffer w stripe_req c
                 (if c = p then req_blocks chunk * bl else preread_blocks chunk * bl)
             else stripe_req)
      in if preread_blocks chunk \<noteq> 0
         then raid5_submit_chunk_request w stripe_req c CHUNK_PREREAD
         else (w, stripe_req))"

fun degraded_write_map_loop ::
    "world \<Rightarrow> stripe_request \<Rightarrow> nat list \<Rightarrow> 32 word \<times> world \<times> stripe_request" where
  "degraded_write_map_loop w stripe_req [] = (0, w, stripe_req)"
| "degraded_write_map_loop w stripe_req (c # cs) =
     (if req_blocks (chunks stripe_req ! c) > 0 then
        (let (ret, w, stripe_req) = raid5_chunk_map_req_data w stripe_req c
         in if ret \<noteq> 0 then (ret, w, stripe_req) else degraded_write_map_loop w stripe_req cs)
      else degraded_write_map_loop w stripe_req cs)"

text \<open>The preread range that \<open>raid5_degraded_write\<close> gives to a chunk other than \<open>d_chunk\<close>.\<close>

definition degraded_preread :: "stripe_request \<Rightarrow> nat \<Rightarrow> nat \<Rightarrow> nat \<times> nat" where
  "degraded_preread stripe_req d c =
     (let chunk = chunks stripe_req ! c;
          d_chunk = chunks stripe_req ! d;
          p = parity_chunk stripe_req;
          p_chunk = chunks stripe_req ! p;
          ss = strip_size (raid_bdev (raid_io stripe_req))
      in if req_blocks d_chunk = 0 then (req_offset chunk, req_blocks chunk)
         else if first_data_chunk stripe_req = last_data_chunk stripe_req then
           (if c = p then (0, 0) else (req_offset p_chunk, req_blocks p_chunk))
         else if req_offset d_chunk = 0 \<and> req_blocks d_chunk = ss then
           (if c = p then (0, 0)
            else if req_offset chunk \<noteq> 0 then (0, req_offset chunk)
            else (req_blocks chunk, u64_sub ss (req_blocks chunk)))
         else if c = p then
           (if req_offset d_chunk \<noteq> 0 then (0, req_offset d_chunk)
            else (req_blocks d_chunk, u64_sub ss (req_blocks d_chunk)))
         else if c = first_data_chunk stripe_req \<or> c = last_data_chunk stripe_req
                 \<or> req_blocks chunk = 0 then (0, ss)
         else if req_offset d_chunk \<noteq> 0 then (0, req_offset d_chunk)
         else (req_blocks d_chunk, u64_sub ss (req_blocks d_chunk)))"

fun degraded_write_loop ::
    "world \<Rightarrow> stripe_request \<Rightarrow> nat \<Rightarrow> nat list \<Rightarrow> world \<times> stripe_request" where
  "degraded_write_loop w stripe_req d [] = (w, stripe_req)"
| "degraded_write_loop w stripe_req d (c # cs) =
     (if c = d then degraded_write_loop w (chunk_set_preread stripe_req c 0 0) d cs
      else
        (let (off, blocks) = degraded_preread stripe_req d c;
             (w, stripe_req) = bind_and_preread w (chunk_set_preread stripe_req c off blocks) c
         in degraded_write_loop w stripe_req d cs))"

definition raid5_degraded_write :: "world \<Rightarrow> stripe_request \<Rightarrow> world \<times> stripe_request" where
  "raid5_degraded_write w stripe_req =
     (let d = the (degraded_chunk stripe_req);
          p = parity_chunk stripe_req
      in if d = p then
           (let (ret, w, stripe_req) =
                  degraded_write_map_loop w stripe_req (for_each_data_chunk stripe_req)
            in if ret \<noteq> 0 then raid5_abort_stripe_request w stripe_req (errno_to_status ret)
               else raid5_stripe_write_submit w stripe_req)
         else
           (let stripe_req = set_parity_window stripe_req;
                stripe_req = stripe_req\<lparr>chunk_requests_complete_cb :=
                  (if req_blocks (chunks stripe_req ! d) \<noteq> 0
                   then CB_raid5_stripe_write_preread_complete_degraded
                   else CB_raid5_stripe_write_preread_complete_rmw)\<rparr>;
                (w, stripe_req) = degraded_write_loop w stripe_req d (for_each_chunk stripe_req)
            in if remaining stripe_req = 0 then call_chunk_requests_complete_cb w stripe_req
               else (w, stripe_req)))"

text \<open>The vote of \<open>raid5_stripe_write\<close>: the loop that computes \<open>preread_balance\<close>.\<close>

fun preread_balance_loop :: "stripe_request \<Rightarrow> int \<Rightarrow> nat list \<Rightarrow> int" where
  "preread_balance_loop stripe_req preread_balance [] = preread_balance"
| "preread_balance_loop stripe_req preread_balance (c # cs) =
     (let chunk = chunks stripe_req ! c;
          p_chunk = chunks stripe_req ! parity_chunk stripe_req;
          preread_balance =
            (if req_blocks chunk < req_blocks p_chunk then preread_balance + 1
             else preread_balance);
          preread_balance =
            (if req_blocks chunk > 0 then preread_balance - 1 else preread_balance)
      in preread_balance_loop stripe_req preread_balance cs)"

text \<open>The preread range that \<open>raid5_stripe_write\<close> gives to a chunk.\<close>

definition write_preread :: "stripe_request \<Rightarrow> int \<Rightarrow> nat \<Rightarrow> nat \<times> nat" where
  "write_preread stripe_req preread_balance c =
     (let chunk = chunks stripe_req ! c;
          p = parity_chunk stripe_req;
          p_chunk = chunks stripe_req ! p
      in if preread_balance > 0 then (req_offset chunk, req_blocks chunk)
         else if c = p then (0, 0)
         else if first_data_chunk stripe_req = last_data_chunk stripe_req then
           (if req_blocks chunk \<noteq> 0 then (0, 0) else (req_offset p_chunk, req_blocks p_chunk))
         else if req_offset chunk \<noteq> 0 then (0, req_offset chunk)
         else (req_blocks chunk,
               u64_sub (strip_size (raid_bdev (raid_io stripe_req))) (req_blocks chunk)))"

fun stripe_write_loop ::
    "world \<Rightarrow> stripe_request \<Rightarrow> int \<Rightarrow> nat list \<Rightarrow> world \<times> stripe_request" where
  "stripe_write_loop w stripe_req preread_balance [] = (w, stripe_req)"
| "stripe_write_loop w stripe_req preread_balance (c # cs) =
     (let (off, blocks) = write_preread stripe_req preread_balance c;
          (w, stripe_req) = bind_and_preread w (chunk_set_preread stripe_req c off blocks) c
      in stripe_write_loop w stripe_req preread_balance cs)"

text \<open>
  \<open>raid5_stripe_write\<close> without a degraded chunk, up to the end of its planning loop:
  the parity window, the vote, the callback, the prereads.
\<close>

definition stripe_write_plan :: "world \<Rightarrow> stripe_request \<Rightarrow> world \<times> stripe_request" where
  "stripe_write_plan w stripe_req =
     (let stripe_req = set_parity_window stripe_req;
          preread_balance = preread_balance_loop stripe_req 0 (for_each_data_chunk stripe_req);
          stripe_req = stripe_req\<lparr>chunk_requests_complete_cb :=
            (if preread_balance > 0 then CB_raid5_stripe_write_preread_complete_rmw
             else CB_raid5_stripe_write_preread_complete)\<rparr>
      in stripe_write_loop w stripe_req preread_balance (for_each_chunk stripe_req))"

definition raid5_stripe_write :: "world \<Rightarrow> stripe_request \<Rightarrow> world \<times> stripe_request" where
  "raid5_stripe_write w stripe_req =
     (if degraded_chunk stripe_req \<noteq> None then raid5_degraded_write w stripe_req
      else
        (let (w, stripe_req) = stripe_write_plan w stripe_req
         in if remaining stripe_req = 0 then call_chunk_requests_complete_cb w stripe_req
            else (w, stripe_req)))"

subsection \<open>Degraded members, reads, submission of a stripe request\<close>

fun check_degraded_loop :: "stripe_request \<Rightarrow> nat \<Rightarrow> nat list \<Rightarrow> nat \<times> stripe_request" where
  "check_degraded_loop stripe_req total_degraded [] = (total_degraded, stripe_req)"
| "check_degraded_loop stripe_req total_degraded (c # cs) =
     (if base_bdev_degraded (raid_bdev (raid_io stripe_req)) ! index (chunks stripe_req ! c)
      then check_degraded_loop (stripe_req\<lparr>degraded_chunk := Some c\<rparr>)
             ((total_degraded + 1) mod 2 ^ 8) cs
      else check_degraded_loop stripe_req total_degraded cs)"

definition raid5_check_degraded :: "stripe_request \<Rightarrow> 32 word \<times> stripe_request" where
  "raid5_check_degraded stripe_req =
     (let (total_degraded, stripe_req) =
            check_degraded_loop (stripe_req\<lparr>degraded_chunk := None\<rparr>) 0 (for_each_chunk stripe_req)
      in if total_degraded > base_bdevs_max_degraded (raid_bdev (raid_io stripe_req))
         then (- 1, stripe_req) else (0, stripe_req))"

text \<open>
  The body of the loop of \<open>raid5_stripe_read\<close> for a read that reconstructs \<open>d_chunk\<close>, up
  to the submission: the return value of the mapping, if there is one.
\<close>

definition read_degraded_prepare ::
    "world \<Rightarrow> stripe_request \<Rightarrow> nat \<Rightarrow> nat \<Rightarrow> 32 word \<times> world \<times> stripe_request" where
  "read_degraded_prepare w stripe_req d c =
     (let chunk = chunks stripe_req ! c;
          d_chunk = chunks stripe_req ! d;
          bl = blocklen (raid_bdev (raid_io stripe_req))
      in if req_blocks chunk = 0 then
           (0, w, chunk_bind_buffer w
                    (chunk_set_preread stripe_req c (req_offset d_chunk) (req_blocks d_chunk)) c
                    (req_blocks d_chunk * bl))
         else if c = d then
           raid5_chunk_map_req_data w (chunk_set_preread stripe_req c 0 0) c
         else if req_offset chunk > req_offset d_chunk
                 \<or> req_offset chunk + req_blocks chunk < req_offset d_chunk + req_blocks d_chunk then
           (let off = min (req_offset chunk) (req_offset d_chunk);
                blocks = u64_sub (max (req_offset chunk + req_blocks chunk)
                                      (req_offset d_chunk + req_blocks d_chunk)) off;
                stripe_req = chunk_bind_buffer w (chunk_set_preread stripe_req c off blocks) c
                               (blocks * bl)
            in (0, w, stripe_req\<lparr>iov_offset := iov_offset stripe_req + req_blocks chunk * bl\<rparr>))
         else raid5_chunk_map_req_data w (chunk_set_preread stripe_req c 0 0) c)"

text \<open>The two loops of \<open>raid5_stripe_read\<close>; a failed mapping aborts the request and returns.\<close>

fun stripe_read_degraded_loop ::
    "world \<Rightarrow> stripe_request \<Rightarrow> nat \<Rightarrow> nat list \<Rightarrow> world \<times> stripe_request" where
  "stripe_read_degraded_loop w stripe_req d [] = (w, stripe_req)"
| "stripe_read_degraded_loop w stripe_req d (c # cs) =
     (let (ret, w, stripe_req) = read_degraded_prepare w stripe_req d c
      in if ret \<noteq> 0 then raid5_abort_stripe_request w stripe_req (errno_to_status ret)
         else
           (let chunk = chunks stripe_req ! c;
                (w, stripe_req) =
                  (if preread_blocks chunk \<noteq> 0
                   then raid5_submit_chunk_request w stripe_req c CHUNK_PREREAD
                   else if req_blocks chunk \<noteq> 0 \<and> c \<noteq> d
                   then raid5_submit_chunk_request w stripe_req c CHUNK_READ
                   else (w, stripe_req))
            in stripe_read_degraded_loop w stripe_req d cs))"

fun stripe_read_loop :: "world \<Rightarrow> stripe_request \<Rightarrow> nat list \<Rightarrow> world \<times> stripe_request" where
  "stripe_read_loop w stripe_req [] = (w, stripe_req)"
| "stripe_read_loop w stripe_req (c # cs) =
     (if req_blocks (chunks stripe_req ! c) > 0 then
        (let (ret, w, stripe_req) = raid5_chunk_map_req_data w stripe_req c
         in if ret \<noteq> 0 then raid5_abort_stripe_request w stripe_req (errno_to_status ret)
            else
              (let (w, stripe_req) = raid5_submit_chunk_request w stripe_req c CHUNK_READ
               in stripe_read_loop w stripe_req cs))
      else stripe_read_loop w stripe_req cs)"

definition raid5_stripe_read :: "world \<Rightarrow> stripe_request \<Rightarrow> world \<times> stripe_request" where
  "raid5_stripe_read w stripe_req =
     (case degraded_chunk stripe_req of
        Some d \<Rightarrow>
          (if req_blocks (chunks stripe_req ! d) > 0 then
             stripe_read_degraded_loop w
               (stripe_req\<lparr>chunk_requests_complete_cb :=
                  CB_raid5_complete_reconstructed_stripe_request\<rparr>)
               d (for_each_chunk stripe_req)
           else
             stripe_read_loop w
               (stripe_req\<lparr>chunk_requests_complete_cb := CB_raid5_complete_stripe_request\<rparr>)
               (for_each_data_chunk stripe_req))
      | None \<Rightarrow>
          stripe_read_loop w
            (stripe_req\<lparr>chunk_requests_complete_cb := CB_raid5_complete_stripe_request\<rparr>)
            (for_each_data_chunk stripe_req))"

definition raid5_submit_stripe_request ::
    "world \<Rightarrow> stripe_request \<Rightarrow> world \<times> stripe_request" where
  "raid5_submit_stripe_request w stripe_req =
     (let (ret, stripe_req) = raid5_check_degraded stripe_req
      in if ret \<noteq> 0 then raid5_abort_stripe_request w stripe_req SPDK_BDEV_IO_STATUS_FAILED
         else if io_type (raid_io stripe_req) = SPDK_BDEV_IO_TYPE_READ
         then raid5_stripe_read w stripe_req
         else raid5_stripe_write w stripe_req)"

subsection \<open>The base bdev completing chunk requests\<close>

text \<open>
  The base bdevs call \<open>raid5_complete_chunk_request\<close> once for every chunk request of
  \<open>stripe_req\<close> that was submitted; \<open>successes\<close> are the results, in the order of the calls.
\<close>

fun complete_chunk_requests ::
    "world \<Rightarrow> stripe_request \<Rightarrow> bool list \<Rightarrow> world \<times> stripe_request" where
  "complete_chunk_requests w stripe_req [] = (w, stripe_req)"
| "complete_chunk_requests w stripe_req (success # successes) =
     (let (w, stripe_req) = raid5_complete_chunk_request w stripe_req success
      in complete_chunk_requests w stripe_req successes)"

section \<open>Request dispatcher\<close>

text \<open>The loop of \<open>raid5_handle_stripe\<close> that initialises the chunks, and its body.\<close>

definition handle_stripe_chunk :: "stripe_request \<Rightarrow> nat \<Rightarrow> nat \<Rightarrow> nat \<Rightarrow> stripe_request" where
  "handle_stripe_chunk stripe_req stripe_offset_from stripe_offset_to c =
     (let rb = raid_bdev (raid_io stripe_req);
          stripe_req = stripe_req\<lparr>chunks := (chunks stripe_req)[c := (chunks stripe_req ! c)
            \<lparr>index := c mod 2 ^ 8, iovs := Iovs_embedded, iovcnt := 1\<rparr>]\<rparr>
      in if c = parity_chunk stripe_req \<or> c < first_data_chunk stripe_req
            \<or> c > last_data_chunk stripe_req
         then chunk_set_req stripe_req c 0 0
         else
           (let chunk_offset_from = raid5_chunk_data_index stripe_req c * 2 ^ strip_size_shift rb;
                chunk_offset_to = chunk_offset_from + strip_size rb;
                off = (if stripe_offset_from > chunk_offset_from
                       then stripe_offset_from - chunk_offset_from else 0);
                blocks = (if stripe_offset_to < chunk_offset_to
                          then u64_sub stripe_offset_to chunk_offset_from else strip_size rb)
            in chunk_set_req stripe_req c off (u64_sub blocks off)))"

fun handle_stripe_chunks_loop ::
    "stripe_request \<Rightarrow> nat \<Rightarrow> nat \<Rightarrow> nat list \<Rightarrow> stripe_request" where
  "handle_stripe_chunks_loop stripe_req stripe_offset_from stripe_offset_to [] = stripe_req"
| "handle_stripe_chunks_loop stripe_req stripe_offset_from stripe_offset_to (c # cs) =
     handle_stripe_chunks_loop
       (handle_stripe_chunk stripe_req stripe_offset_from stripe_offset_to c)
       stripe_offset_from stripe_offset_to cs"

text \<open>
  The objects of the pool are memory, and the queue of a stripe links the objects
  themselves: after a function has worked on a request in flight, the request is written
  back at its place in the queue (nothing is written when it has left the queue).
\<close>

definition store_request :: "world \<Rightarrow> stripe_request \<Rightarrow> world" where
  "store_request w stripe_req =
     w\<lparr>stripes := (stripes w)[stripe stripe_req := (stripes w ! stripe stripe_req)
        \<lparr>requests := map (\<lambda>r. if req_id r = req_id stripe_req then stripe_req else r)
                          (requests (stripes w ! stripe stripe_req))\<rparr>]\<rparr>"

text \<open>
  \<open>raid5_handle_stripe\<close> after the split: a stripe request is taken from the pool,
  initialised (\<open>stripe_request_init\<close>: the fields that are not assigned keep what the
  object held), queued on the stripe and, when the queue was empty, submitted.
\<close>

definition stripe_request_init ::
    "world \<Rightarrow> stripe_request \<Rightarrow> raid_bdev_io \<Rightarrow> nat \<Rightarrow> nat \<Rightarrow> nat \<Rightarrow> nat \<Rightarrow> stripe_request" where
  "stripe_request_init w obj rio sid stripe_offset blocks iov_off =
     (let rb = raid_bdev rio;
          stripe_req = obj\<lparr>raid_io := rio, iov_offset := iov_off, init_iov_offset := iov_off,
                         status := SPDK_BDEV_IO_STATUS_SUCCESS, remaining := 0,
                         stripe := sid,
                         parity_chunk := u64_sub (raid5_stripe_data_chunks_num rb)
                           (stripe_index (stripes w ! sid) mod num_base_bdevs rb)\<rparr>;
          stripe_offset_from = stripe_offset;
          stripe_offset_to = stripe_offset_from + blocks;
          first_chunk_data_idx = (stripe_offset_from div 2 ^ strip_size_shift rb) mod 2 ^ 8;
          last_chunk_data_idx =
            (u64_sub stripe_offset_to 1 div 2 ^ strip_size_shift rb) mod 2 ^ 8;
          stripe_req = stripe_req\<lparr>first_data_chunk :=
                         raid5_get_data_chunk stripe_req first_chunk_data_idx\<rparr>;
          stripe_req = stripe_req\<lparr>last_data_chunk :=
                         raid5_get_data_chunk stripe_req last_chunk_data_idx\<rparr>
      in handle_stripe_chunks_loop stripe_req stripe_offset_from stripe_offset_to
           (for_each_chunk stripe_req))"

definition handle_stripe_request ::
    "world \<Rightarrow> raid_bdev_io \<Rightarrow> nat \<Rightarrow> nat \<Rightarrow> nat \<Rightarrow> nat \<Rightarrow> world" where
  "handle_stripe_request w rio sid stripe_offset blocks iov_off =
     (case stripe_request_mempool w of
        [] \<Rightarrow> snd (raid_bdev_io_complete_part w rio blocks SPDK_BDEV_IO_STATUS_NOMEM)
      | obj # pool \<Rightarrow>
          (let w = w\<lparr>stripe_request_mempool := pool\<rparr>;
               stripe_req = stripe_request_init w obj rio sid stripe_offset blocks iov_off;
               do_submit = (requests (stripes w ! sid) = []);
               w = w\<lparr>stripes := (stripes w)[sid := (stripes w ! sid)
                      \<lparr>requests := requests (stripes w ! sid) @ [stripe_req]\<rparr>]\<rparr>
           in if do_submit then
                (let (w, stripe_req) = raid5_submit_stripe_request w stripe_req
                 in store_request w stripe_req)
              else w))"

function raid5_handle_stripe ::
    "world \<Rightarrow> raid_bdev_io \<Rightarrow> nat \<Rightarrow> nat \<Rightarrow> nat \<Rightarrow> nat \<Rightarrow> world" where
  "raid5_handle_stripe w rio sid stripe_offset blocks iov_off =
     (if base_bdev_io_remaining w (io_id rio) = blocks
         \<and> io_type rio = SPDK_BDEV_IO_TYPE_WRITE
         \<and> blocks < strip_size (raid_bdev rio)
         \<and> blocks > strip_size (raid_bdev rio) - stripe_offset mod strip_size (raid_bdev rio)
      then
        (let blocks_limit = strip_size (raid_bdev rio) - stripe_offset mod strip_size (raid_bdev rio)
         in handle_stripe_request
              (raid5_handle_stripe w rio sid stripe_offset blocks_limit iov_off)
              rio sid (stripe_offset + blocks_limit) (blocks - blocks_limit)
              (iov_off + blocks_limit * blocklen (raid_bdev rio)))
      else handle_stripe_request w rio sid stripe_offset blocks iov_off)"
  by pat_completeness auto
termination
  by (relation "measure (\<lambda>(w, rio, sid, stripe_offset, blocks, iov_off). blocks)") auto

declare raid5_handle_stripe.simps [simp del]

subsection \<open>Stripe cache\<close>

text \<open>
  The loop of \<open>raid5_reclaim_stripes\<close>, over the active stripes from the tail of the list
  (\<open>TAILQ_FOREACH_REVERSE_SAFE\<close>).
\<close>

fun reclaim_loop :: "world \<Rightarrow> int \<Rightarrow> int \<Rightarrow> nat list \<Rightarrow> int \<times> world" where
  "reclaim_loop w to_reclaim reclaimed [] = (reclaimed, w)"
| "reclaim_loop w to_reclaim reclaimed (sid # rest) =
     (if refs (stripes w ! sid) > 0 then reclaim_loop w to_reclaim reclaimed rest
      else
        (let w = w\<lparr>active_stripes := remove1 sid (active_stripes w),
                   free_stripes := free_stripes w @ [sid],
                   active_stripes_hash :=
                     filter (\<lambda>(k, v). k \<noteq> stripe_index (stripes w ! sid)) (active_stripes_hash w)\<rparr>;
             reclaimed = reclaimed + 1
         in if reclaimed > to_reclaim then (reclaimed, w)
            else reclaim_loop w to_reclaim reclaimed rest))"

definition raid5_reclaim_stripes :: "world \<Rightarrow> int \<times> world" where
  "raid5_reclaim_stripes w =
     (let to_reclaim = int (raid_max_stripes w div 8) - int (raid_max_stripes w)
                       + int (length (active_stripes_hash w))
      in reclaim_loop w to_reclaim 0 (rev (active_stripes w)))"

definition raid5_get_stripe :: "world \<Rightarrow> nat \<Rightarrow> nat option \<times> world" where
  "raid5_get_stripe w stripe_idx =
     (let h = rte_hash_hash w stripe_idx;
          activate = (\<lambda>w sid.
            (let w = w\<lparr>active_stripes := sid # active_stripes w\<rparr>;
                 w = w\<lparr>stripes := (stripes w)[sid := (stripes w ! sid)
                        \<lparr>refs := (refs (stripes w ! sid) + 1) mod 2 ^ 32\<rparr>]\<rparr>
             in (Some sid, w)));
          take_free = (\<lambda>w sid.
            (let w = w\<lparr>free_stripes := remove1 sid (free_stripes w)\<rparr>;
                 w = w\<lparr>stripes := (stripes w)[sid := (stripes w ! sid)
                        \<lparr>stripe_index := stripe_idx, hash := h\<rparr>]\<rparr>;
                 w = w\<lparr>active_stripes_hash :=
                        (stripe_idx, sid) # filter (\<lambda>(k, v). k \<noteq> stripe_idx) (active_stripes_hash w)\<rparr>
             in activate w sid))
      in case map_of (active_stripes_hash w) stripe_idx of
           None \<Rightarrow>
             (case free_stripes w of
                [] \<Rightarrow>
                  (let (n, w) = raid5_reclaim_stripes w
                   in if n > 0 then
                        (case free_stripes w of [] \<Rightarrow> (None, w) | sid # _ \<Rightarrow> take_free w sid)
                      else (None, w))
              | sid # _ \<Rightarrow> take_free w sid)
         | Some sid \<Rightarrow> activate (w\<lparr>active_stripes := remove1 sid (active_stripes w)\<rparr>) sid)"

text \<open>\<open>r5info->stripe_blocks\<close>, as \<open>raid5_start\<close> computes it.\<close>

definition stripe_blocks :: "raid_bdev \<Rightarrow> nat" where
  "stripe_blocks rb = strip_size rb * raid5_stripe_data_chunks_num rb"

definition raid5_submit_rw_request :: "world \<Rightarrow> raid_bdev_io \<Rightarrow> world" where
  "raid5_submit_rw_request w rio =
     (let stripe_idx = offset_blocks rio div stripe_blocks (raid_bdev rio);
          stripe_offset = offset_blocks rio mod stripe_blocks (raid_bdev rio);
          (st, w) = raid5_get_stripe w stripe_idx
      in case st of
           None \<Rightarrow>
             w\<lparr>retry_queue := (retry_queue w)(raid_ch rio :=
                  retry_queue w (raid_ch rio) @ [(WCB_raid5_submit_rw_request, rio)])\<rparr>
         | Some sid \<Rightarrow>
             raid5_handle_stripe
               (w\<lparr>base_bdev_io_remaining := (base_bdev_io_remaining w)(io_id rio := num_blocks rio)\<rparr>)
               rio sid stripe_offset (num_blocks rio) 0)"

subsection \<open>The vote, in the words of the specification\<close>

text \<open>
  "For each data chunk, \<open>+1\<close> if \<open>req_blocks < P.req_blocks\<close>, \<open>-1\<close> if \<open>req_blocks > 0\<close>":
  the final balance.
\<close>

definition spec_vote_balance :: "stripe_request \<Rightarrow> int" where
  "spec_vote_balance r =
     (\<Sum>c\<leftarrow>for_each_data_chunk r.
        (if req_blocks (chunks r ! c) < req_blocks (chunks r ! parity_chunk r) then 1 else 0)
        - (if 0 < req_blocks (chunks r ! c) then 1 else 0))"

text \<open>
  The call \<open>waitq_entry->cb_fn(waitq_entry->cb_arg)\<close> that the trace records as \<open>Ev_wait_cb\<close>:
  the only callback that this module puts into a wait entry of the retry queue is
  \<open>_raid5_submit_rw_request\<close>, which calls \<open>raid5_submit_rw_request\<close>.
\<close>

definition wait_cb_call :: "world \<Rightarrow> wait_cb \<Rightarrow> raid_bdev_io \<Rightarrow> world" where
  "wait_cb_call w cb_fn cb_arg =
     (case cb_fn of WCB_raid5_submit_rw_request \<Rightarrow> raid5_submit_rw_request w cb_arg)"

section \<open>A concrete array\<close>

text \<open>
  Three members, strips of four blocks, blocks of eight bytes (instead of 512, to keep the
  buffers short): the geometry of the scenarios of the specification, with
  \<open>P(0) = 2\<close>, \<open>P(1) = 1\<close>, \<open>P(2) = 0\<close>.  The pool holds two stripe requests and the
  cache two stripes.
\<close>

definition ex_raid_bdev :: raid_bdev where
  "ex_raid_bdev = \<lparr>num_base_bdevs = 3, strip_size = 4, strip_size_shift = 2, blocklen = 8,
     base_bdev_degraded = [False, False, False], base_bdevs_max_degraded = 1\<rparr>"

definition ex_chunk :: chunk where
  "ex_chunk = \<lparr>index = 0, req_offset = 0, req_blocks = 0, preread_offset = 0,
     preread_blocks = 0, iovs = Iovs_embedded, iovcnt = 1, iov = [],
     request_type = CHUNK_READ\<rparr>"

definition ex_io :: "spdk_bdev_io_type \<Rightarrow> nat \<Rightarrow> nat \<Rightarrow> iovec list \<Rightarrow> raid_bdev_io" where
  "ex_io ty off n vs = \<lparr>io_id = 0, raid_bdev = ex_raid_bdev, raid_ch = 0, io_type = ty,
     offset_blocks = off, num_blocks = n, bdev_iovs = vs\<rparr>"

definition ex_obj :: "nat \<Rightarrow> stripe_request" where
  "ex_obj k = \<lparr>req_id = k, raid_io = ex_io SPDK_BDEV_IO_TYPE_READ 0 0 [], stripe = 0,
     remaining = 0, status = SPDK_BDEV_IO_STATUS_SUCCESS,
     chunk_requests_complete_cb = CB_raid5_complete_stripe_request,
     iov_offset = 0, init_iov_offset = 0, first_data_chunk = 0, last_data_chunk = 0,
     parity_chunk = 0, degraded_chunk = None, chunks = [ex_chunk, ex_chunk, ex_chunk]\<rparr>"

definition ex_stripe :: "nat \<Rightarrow> nat \<Rightarrow> stripe" where
  "ex_stripe idx r = \<lparr>stripe_index = idx, hash = idx, requests = [], refs = r,
     chunk_buffers = [replicate 32 7, replicate 32 7, replicate 32 7]\<rparr>"

definition ex_world :: world where
  "ex_world = \<lparr>stripes = [ex_stripe 0 0, ex_stripe 1 0], active_stripes_hash = [],
     active_stripes = [], free_stripes = [0, 1],
     stripe_request_mempool = [ex_obj 0, ex_obj 1],
     base_bdev_io_remaining = (\<lambda>_. 0), retry_queue = (\<lambda>_. []), realloc_results = [],
     trace = [], raid_max_stripes = 2, rte_hash_hash = (\<lambda>k. k)\<rparr>"


text \<open>
  A read of the blocks 2 to 5 of stripe 0 while member 0 is degraded, with an upstream
  vector of 16 bytes where the four blocks need 32: the request as \<open>raid5_handle_stripe\<close>
  plans it, the request and the world once \<open>raid5_stripe_read\<close> has submitted the two
  prereads, and the world after the request has been aborted.
\<close>

definition ex_degraded_read :: raid_bdev_io where
  "ex_degraded_read =
     (ex_io SPDK_BDEV_IO_TYPE_READ 2 4 [replicate 16 0])
       \<lparr>raid_bdev := ex_raid_bdev\<lparr>base_bdev_degraded := [True, False, False]\<rparr>\<rparr>"

definition ex_read_planned :: stripe_request where
  "ex_read_planned = (ex_obj 0)\<lparr>raid_io := ex_degraded_read, parity_chunk := 2,
     first_data_chunk := 0, last_data_chunk := 1,
     chunks := [ex_chunk\<lparr>req_offset := 2, req_blocks := 2\<rparr>,
                ex_chunk\<lparr>index := 1, req_blocks := 2\<rparr>, ex_chunk\<lparr>index := 2\<rparr>]\<rparr>"

definition ex_read_in_flight :: stripe_request where
  "ex_read_in_flight = ex_read_planned\<lparr>degraded_chunk := Some 0,
     chunk_requests_complete_cb := CB_raid5_complete_reconstructed_stripe_request,
     remaining := 2, iov_offset := 32,
     chunks := [ex_chunk\<lparr>req_offset := 2, req_blocks := 2, iov := replicate 16 0\<rparr>,
                ex_chunk\<lparr>index := 1, req_blocks := 2, preread_blocks := 4,
                  iov := replicate 32 7, request_type := CHUNK_PREREAD\<rparr>,
                ex_chunk\<lparr>index := 2, preread_offset := 2, preread_blocks := 2,
                  iov := replicate 16 7, request_type := CHUNK_PREREAD\<rparr>]\<rparr>"

definition ex_read_world :: world where
  "ex_read_world = ex_world\<lparr>
     stripes := [(ex_stripe 0 1)\<lparr>requests := [ex_read_in_flight]\<rparr>, ex_stripe 1 0],
     active_stripes_hash := [(0, 0)], active_stripes := [0], free_stripes := [1],
     stripe_request_mempool := [ex_obj 1], base_bdev_io_remaining := (\<lambda>_. 0)(0 := 4),
     trace := [Ev_bdev_io 1 SPDK_BDEV_IO_TYPE_READ 0 4 [replicate 32 7],
               Ev_bdev_io 2 SPDK_BDEV_IO_TYPE_READ 2 2 [replicate 16 7]]\<rparr>"

definition ex_read_aborted :: stripe_request where
  "ex_read_aborted = ex_read_in_flight\<lparr>remaining := 0, iov_offset := 16,
     status := SPDK_BDEV_IO_STATUS_FAILED\<rparr>"

definition ex_read_aborted_world :: world where
  "ex_read_aborted_world = ex_read_world\<lparr>stripes := [ex_stripe 0 0, ex_stripe 1 0],
     stripe_request_mempool := [ex_obj 1, ex_read_aborted],
     base_bdev_io_remaining := (\<lambda>_. 0),
     trace := [Ev_bdev_io 1 SPDK_BDEV_IO_TYPE_READ 0 4 [replicate 32 7],
               Ev_bdev_io 2 SPDK_BDEV_IO_TYPE_READ 2 2 [replicate 16 7],
               Ev_complete_part 0 4 SPDK_BDEV_IO_STATUS_FAILED]\<rparr>"

text \<open>
  A cache whose two stripes are both active and both referenced, and a write of two blocks
  to stripe 2, which is not in the cache.
\<close>

definition ex_busy_cache :: world where
  "ex_busy_cache = ex_world\<lparr>stripes := [ex_stripe 5 1, ex_stripe 6 1],
     active_stripes_hash := [(6, 1), (5, 0)], active_stripes := [0, 1], free_stripes := []\<rparr>"

definition ex_late_write :: raid_bdev_io where
  "ex_late_write = (ex_io SPDK_BDEV_IO_TYPE_WRITE 16 2 [replicate 16 1])\<lparr>io_id := 1\<rparr>"

text \<open>
  A write of the eight blocks of stripe 0, as \<open>raid5_handle_stripe\<close> plans it.
\<close>

definition ex_full_stripe_write :: stripe_request where
  "ex_full_stripe_write = stripe_request_init ex_world (ex_obj 0)
     (ex_io SPDK_BDEV_IO_TYPE_WRITE 0 8 [replicate 64 170]) 0 0 8 0"

text \<open>
  A write of the blocks 3 and 4 of stripe 0, which lie in two strips, and the world in
  which \<open>raid5_submit_rw_request\<close> calls \<open>raid5_handle_stripe\<close> for it: stripe 0 has been
  taken from the free list and both blocks of the request are outstanding.
\<close>

definition ex_straddling_write :: raid_bdev_io where
  "ex_straddling_write = ex_io SPDK_BDEV_IO_TYPE_WRITE 3 2 [replicate 16 170]"

definition ex_acquired :: world where
  "ex_acquired = ex_world\<lparr>stripes := [ex_stripe 0 1, ex_stripe 1 0],
     active_stripes_hash := [(0, 0)], active_stripes := [0], free_stripes := [1],
     base_bdev_io_remaining := (\<lambda>_. 0)(0 := 2)\<rparr>"

section \<open>Error codes and statuses\<close>

lemma sint_eq_iff32: "(a = (b::32 word)) \<longleftrightarrow> sint a = sint b"
  by (auto intro: signed_word_eqI)

lemma neg_eq_iff32: "(- e = (k :: 32 word)) \<longleftrightarrow> e = - k"
  by auto

lemma c_abs_zero: "c_abs e = 0 \<longleftrightarrow> sint e = 0"
proof -
  have "(- e = 0) \<longleftrightarrow> e = 0" by simp
  then show ?thesis unfolding c_abs_def by (auto simp: sint_eq_iff32 [of e 0])
qed

lemma c_abs_12: "c_abs e = 12 \<longleftrightarrow> \<bar>sint e\<bar> = 12"
proof (cases "sint e < 0")
  case True
  have "(- e = 12) \<longleftrightarrow> sint e = sint (- 12 :: 32 word)"
    by (subst neg_eq_iff32) (simp add: sint_eq_iff32)
  then show ?thesis using True by (auto simp add: c_abs_def)
next
  case False
  have "(e = 12) \<longleftrightarrow> sint e = sint (12 :: 32 word)"
    by (simp add: sint_eq_iff32)
  then show ?thesis using False by (simp add: c_abs_def)
qed

lemma c_abs_neg: "c_abs (- e) = c_abs e"
proof (cases "sint e = - (2 ^ 31)")
  case True
  then have "sint e = sint (- (2 ^ 31) :: 32 word)" by simp
  then have "e = - (2 ^ 31)" by (simp only: sint_eq_iff32)
  then show ?thesis by (simp add: c_abs_def)
next
  case False
  have r: "- (2 ^ 31) \<le> sint e" "sint e < 2 ^ 31"
    using sint_ge [of e] sint_lt [of e] by simp_all
  have "sint (- e) = signed_take_bit 31 (- sint e)"
    by (simp add: sint_word_minus)
  also have "\<dots> = - sint e"
    using r False by (simp add: signed_take_bit_int_eq_self)
  finally have n: "sint (- e) = - sint e" .
  show ?thesis
  proof (cases "sint e = 0")
    case True
    then have "e = 0" by (simp add: sint_eq_iff32)
    then show ?thesis by simp
  next
    case False
    then show ?thesis using n by (simp add: c_abs_def)
  qed
qed

lemma errno_to_status_neg: "errno_to_status (- e) = errno_to_status e"
  by (simp add: errno_to_status_def c_abs_neg)

lemma raid5_chunk_map_iov_ret:
  "fst (raid5_chunk_map_iov w chunk iov_list offset len) \<in> {0, - EINVAL, - ENOMEM}"
  by (simp add: raid5_chunk_map_iov_def Let_def split: option.split prod.split)

text \<open>
  Claim C10.  The status of an error code depends on its absolute value only:
  \<open>SUCCESS\<close> exactly for \<open>|e| = 0\<close>, \<open>NOMEM\<close> exactly for \<open>|e| = ENOMEM\<close>, \<open>FAILED\<close> for
  every other code, for every 32-bit \<open>int\<close> (also \<open>INT_MIN\<close>, where \<open>abs\<close> wraps).  The
  mapping of the upstream vectors returns \<open>0\<close>, \<open>-EINVAL\<close> or \<open>-ENOMEM\<close>, and \<open>-EINVAL\<close>
  gives \<open>FAILED\<close>.  Aborting a stripe request with the status of \<open>-e\<close> is aborting it with
  the status of \<open>e\<close>.
\<close>

theorem errno_to_status_absolute_value:
  "(errno_to_status e = SPDK_BDEV_IO_STATUS_SUCCESS \<longleftrightarrow> \<bar>sint e\<bar> = 0) \<and>
   (errno_to_status e = SPDK_BDEV_IO_STATUS_NOMEM \<longleftrightarrow> \<bar>sint e\<bar> = sint ENOMEM) \<and>
   (errno_to_status e = SPDK_BDEV_IO_STATUS_FAILED \<longleftrightarrow>
      \<bar>sint e\<bar> \<noteq> 0 \<and> \<bar>sint e\<bar> \<noteq> sint ENOMEM) \<and>
   fst (raid5_chunk_map_iov w chunk iov_list offset len) \<in> {0, - EINVAL, - ENOMEM} \<and>
   errno_to_status (- EINVAL) = SPDK_BDEV_IO_STATUS_FAILED \<and>
   errno_to_status EINVAL = SPDK_BDEV_IO_STATUS_FAILED \<and>
   errno_to_status (- e) = errno_to_status e \<and>
   raid5_abort_stripe_request w stripe_req (errno_to_status (- e)) =
     raid5_abort_stripe_request w stripe_req (errno_to_status e)"
proof -
  have z: "c_abs e = 0 \<longleftrightarrow> \<bar>sint e\<bar> = 0"
    by (simp add: c_abs_zero)
  have m: "c_abs e = ENOMEM \<longleftrightarrow> \<bar>sint e\<bar> = sint ENOMEM"
    by (simp add: ENOMEM_def c_abs_12)
  have nz: "sint ENOMEM \<noteq> 0"
    by (simp add: ENOMEM_def)
  have s: "errno_to_status e = SPDK_BDEV_IO_STATUS_SUCCESS \<longleftrightarrow> \<bar>sint e\<bar> = 0"
    unfolding errno_to_status_def Let_def using z by simp
  have n: "errno_to_status e = SPDK_BDEV_IO_STATUS_NOMEM \<longleftrightarrow> \<bar>sint e\<bar> = sint ENOMEM"
    unfolding errno_to_status_def Let_def using z m nz by auto
  have f: "errno_to_status e = SPDK_BDEV_IO_STATUS_FAILED \<longleftrightarrow>
      \<bar>sint e\<bar> \<noteq> 0 \<and> \<bar>sint e\<bar> \<noteq> sint ENOMEM"
    unfolding errno_to_status_def Let_def using z m by auto
  have i: "errno_to_status EINVAL = SPDK_BDEV_IO_STATUS_FAILED"
    by (simp add: errno_to_status_def c_abs_def EINVAL_def ENOMEM_def)
  show ?thesis
    using s n f i raid5_chunk_map_iov_ret [of w chunk iov_list offset len]
    by (simp add: errno_to_status_neg)
qed

section \<open>Parity placement\<close>

lemma u64_sub_le [simp]: "b \<le> a \<Longrightarrow> u64_sub a b = a - b"
  by (simp add: u64_sub_def)

lemma u8_sub_le [simp]: "b \<le> a \<Longrightarrow> u8_sub a b = a - b"
  by (simp add: u8_sub_def)

lemma handle_stripe_chunk_frame [simp]:
  "parity_chunk (handle_stripe_chunk r f t c) = parity_chunk r"
  "raid_io (handle_stripe_chunk r f t c) = raid_io r"
  "first_data_chunk (handle_stripe_chunk r f t c) = first_data_chunk r"
  "last_data_chunk (handle_stripe_chunk r f t c) = last_data_chunk r"
  "length (chunks (handle_stripe_chunk r f t c)) = length (chunks r)"
  by (simp_all add: handle_stripe_chunk_def chunk_set_req_def Let_def)

lemma handle_stripe_chunk_other:
  "c' \<noteq> c \<Longrightarrow> chunks (handle_stripe_chunk r f t c) ! c' = chunks r ! c'"
  by (simp add: handle_stripe_chunk_def chunk_set_req_def Let_def)

lemma handle_stripe_chunk_index:
  "c < length (chunks r) \<Longrightarrow> index (chunks (handle_stripe_chunk r f t c) ! c) = c mod 2 ^ 8"
  by (simp add: handle_stripe_chunk_def chunk_set_req_def Let_def)

lemma handle_stripe_chunks_loop_frame [simp]:
  "parity_chunk (handle_stripe_chunks_loop r f t cs) = parity_chunk r"
  "raid_io (handle_stripe_chunks_loop r f t cs) = raid_io r"
  "first_data_chunk (handle_stripe_chunks_loop r f t cs) = first_data_chunk r"
  "last_data_chunk (handle_stripe_chunks_loop r f t cs) = last_data_chunk r"
  "length (chunks (handle_stripe_chunks_loop r f t cs)) = length (chunks r)"
  by (induction cs arbitrary: r; simp)+

lemma handle_stripe_chunks_loop_other:
  "c \<notin> set cs \<Longrightarrow> chunks (handle_stripe_chunks_loop r f t cs) ! c = chunks r ! c"
  by (induction cs arbitrary: r) (auto simp: handle_stripe_chunk_other)

lemma handle_stripe_chunks_loop_index:
  "c \<in> set cs \<Longrightarrow> distinct cs \<Longrightarrow> c < length (chunks r) \<Longrightarrow>
   index (chunks (handle_stripe_chunks_loop r f t cs) ! c) = c mod 2 ^ 8"
proof (induction cs arbitrary: r)
  case Nil
  then show ?case by simp
next
  case (Cons a cs)
  show ?case
  proof (cases "a = c")
    case True
    then have "c \<notin> set cs" using Cons.prems by simp
    then show ?thesis using True Cons.prems
      by (simp add: handle_stripe_chunks_loop_other handle_stripe_chunk_index)
  next
    case False
    then show ?thesis using Cons by simp
  qed
qed

lemma filter_neq_upt:
  assumes "p < n"
  shows "filter (\<lambda>c. c \<noteq> p) [0 ..< n] = map (\<lambda>k. if k < p then k else k + 1) [0 ..< n - 1]"
proof -
  have a0: "[0 ..< p + (n - p)] = [0 ..< p] @ [p ..< p + (n - p)]"
    by (rule upt_add_eq_append) simp
  have a: "[0 ..< n] = [0 ..< p] @ p # [Suc p ..< n]"
    using a0 assms by (simp add: upt_conv_Cons)
  have b0: "[0 ..< p + (n - 1 - p)] = [0 ..< p] @ [p ..< p + (n - 1 - p)]"
    by (rule upt_add_eq_append) simp
  have b: "[0 ..< n - 1] = [0 ..< p] @ [p ..< n - 1]"
    using b0 assms by simp
  have c: "map (\<lambda>k. if k < p then k else k + 1) [p ..< n - 1] = [Suc p ..< n]"
  proof -
    have "map (\<lambda>k. if k < p then k else k + 1) [p ..< n - 1] = map Suc [p ..< n - 1]"
      by (rule map_cong) auto
    also have "\<dots> = [Suc p ..< Suc (n - 1)]" by (simp add: map_Suc_upt)
    finally show ?thesis using assms by simp
  qed
  have d: "map (\<lambda>k. if k < p then k else k + 1) [0 ..< p] = [0 ..< p]"
    by (rule map_idI) simp
  have e: "filter (\<lambda>c. c \<noteq> p) [0 ..< p] = [0 ..< p]" by (rule filter_True) simp
  have f: "filter (\<lambda>c. c \<noteq> p) [Suc p ..< n] = [Suc p ..< n]" by (rule filter_True) simp
  have l: "filter (\<lambda>c. c \<noteq> p) ([0 ..< p] @ p # [Suc p ..< n]) = [0 ..< p] @ [Suc p ..< n]"
    using e f by simp
  have r: "map (\<lambda>k. if k < p then k else k + 1) ([0 ..< p] @ [p ..< n - 1])
             = [0 ..< p] @ [Suc p ..< n]"
    using c d by simp
  show ?thesis
    using l r a b by simp
qed

lemma stripe_request_init_fields:
  "parity_chunk (stripe_request_init w obj rio sid so bl io) =
     u64_sub (raid5_stripe_data_chunks_num (raid_bdev rio))
       (stripe_index (stripes w ! sid) mod num_base_bdevs (raid_bdev rio))"
  "raid_io (stripe_request_init w obj rio sid so bl io) = rio"
  "length (chunks (stripe_request_init w obj rio sid so bl io)) = length (chunks obj)"
  by (simp_all add: stripe_request_init_def Let_def)

text \<open>
  Claim C2.  In the stripe request that \<open>raid5_handle_stripe\<close> builds against a stripe of
  index \<open>s\<close>, on \<open>N\<close> members (\<open>1 \<le> N \<le> 255\<close>, one parity member), the parity chunk is
  the chunk number \<open>D - s mod N\<close> with \<open>D = N - 1\<close>; the data chunk of data index \<open>k < D\<close> is
  the chunk number \<open>k\<close> when \<open>k < P(s)\<close> and \<open>k + 1\<close> otherwise; these are the chunks that
  \<open>FOR_EACH_DATA_CHUNK\<close> visits, in this order, and \<open>raid5_chunk_data_index\<close> gives \<open>k\<close> back.
\<close>

theorem parity_placement:
  assumes "N = num_base_bdevs (raid_bdev rio)" and "0 < N" and "N < 2 ^ 8"
    and "base_bdevs_max_degraded (raid_bdev rio) = 1"
    and "length (chunks obj) = N"
    and "s = stripe_index (stripes w ! sid)"
    and "req = stripe_request_init w obj rio sid stripe_offset blocks iov_off"
  shows "parity_chunk req = (N - 1) - s mod N \<and>
         parity_chunk req < N \<and>
         (\<forall>k < N - 1. raid5_get_data_chunk req k = (if k < (N - 1) - s mod N then k else k + 1)) \<and>
         for_each_data_chunk req = map (raid5_get_data_chunk req) [0 ..< N - 1] \<and>
         (\<forall>k < N - 1. raid5_chunk_data_index req (raid5_get_data_chunk req k) = k)"
proof -
  have d: "raid5_stripe_data_chunks_num (raid_bdev rio) = N - 1"
    using assms(1,2,4) by (simp add: raid5_stripe_data_chunks_num_def)
  have m: "s mod N \<le> N - 1"
    using assms(2) by (metis Suc_pred' less_Suc_eq_le mod_less_divisor)
  have p: "parity_chunk req = (N - 1) - s mod N"
    using assms(1,6,7) d m by (simp add: stripe_request_init_fields)
  have pN: "parity_chunk req < N"
    using p assms(2) by simp
  have p8: "parity_chunk req mod 2 ^ 8 = parity_chunk req"
    using pN assms(3) by simp
  have g: "raid5_get_data_chunk req k = (if k < (N - 1) - s mod N then k else k + 1)" for k
    using p p8 by (simp add: raid5_get_data_chunk_def Let_def)
  have rio: "raid_io req = rio"
    using assms(7) by (simp add: stripe_request_init_fields)
  have f: "for_each_data_chunk req = map (raid5_get_data_chunk req) [0 ..< N - 1]"
  proof -
    have "for_each_data_chunk req = filter (\<lambda>c. c \<noteq> parity_chunk req) [0 ..< N]"
      using rio assms(1) by (simp add: for_each_data_chunk_def for_each_chunk_def)
    also have "\<dots> = map (\<lambda>k. if k < parity_chunk req then k else k + 1) [0 ..< N - 1]"
      using pN by (rule filter_neq_upt)
    also have "\<dots> = map (raid5_get_data_chunk req) [0 ..< N - 1]"
      using g p by simp
    finally show ?thesis .
  qed
  have len: "length (chunks obj) = N" by (rule assms(5))
  have idx: "index (chunks req ! c) = c" if "c < N" for c
  proof -
    have "index (chunks req ! c) = c mod 2 ^ 8"
      unfolding assms(7) stripe_request_init_def Let_def
      using that len assms(1)
      by (intro handle_stripe_chunks_loop_index) (simp_all add: for_each_chunk_def)
    then show ?thesis using that assms(3) by simp
  qed
  have di: "raid5_chunk_data_index req (raid5_get_data_chunk req k) = k" if "k < N - 1" for k
  proof (cases "k < parity_chunk req")
    case True
    then have "raid5_get_data_chunk req k = k" using g p by simp
    moreover have "index (chunks req ! k) = k" using that by (intro idx) simp
    ultimately show ?thesis using True by (simp add: raid5_chunk_data_index_def Let_def)
  next
    case False
    then have e: "raid5_get_data_chunk req k = k + 1" using g p by simp
    have "index (chunks req ! (k + 1)) = k + 1" using that by (intro idx) simp
    then show ?thesis using False e by (simp add: raid5_chunk_data_index_def Let_def)
  qed
  show ?thesis using p pN g f di by simp
qed


theorem parity_placement_witness:
  "parity_chunk (stripe_request_init ex_world (ex_obj 0) (ex_io SPDK_BDEV_IO_TYPE_WRITE 8 8 []) 1 0 8 0) = 1 \<and>
   raid5_get_data_chunk
     (stripe_request_init ex_world (ex_obj 0) (ex_io SPDK_BDEV_IO_TYPE_WRITE 8 8 []) 1 0 8 0) 0 = 0 \<and>
   raid5_get_data_chunk
     (stripe_request_init ex_world (ex_obj 0) (ex_io SPDK_BDEV_IO_TYPE_WRITE 8 8 []) 1 0 8 0) 1 = 2"
proof -
  let ?rio = "ex_io SPDK_BDEV_IO_TYPE_WRITE 8 8 []"
  have h1: "3 = num_base_bdevs (raid_bdev ?rio)"
    by (simp add: ex_io_def ex_raid_bdev_def)
  have h2: "base_bdevs_max_degraded (raid_bdev ?rio) = 1"
    by (simp add: ex_io_def ex_raid_bdev_def)
  have h3: "length (chunks (ex_obj 0)) = 3"
    by (simp add: ex_obj_def)
  have h4: "1 = stripe_index (stripes ex_world ! 1)"
    by (simp add: ex_world_def ex_stripe_def)
  have "(0::nat) < 3" and "(3::nat) < 2 ^ 8" by simp_all
  from parity_placement [OF h1 this h2 h3 h4 refl, of 0 8 0]
  show ?thesis by simp
qed

section \<open>The write strategy\<close>

lemma map_update_id: "f y = f (xs ! c) \<Longrightarrow> map f (xs[c := y]) = map f xs"
proof (cases "c < length xs")
  case True
  assume "f y = f (xs ! c)"
  then have "(map f xs)[c := f y] = map f xs"
    using True by (simp add: list_update_same_conv)
  then show ?thesis by (simp add: map_update)
next
  case False
  then have "xs[c := y] = xs" by (simp add: list_update_beyond not_less)
  then show ?thesis by simp
qed

lemma raid5_submit_chunk_request_frame:
  assumes "raid5_submit_chunk_request w r c ty = (w', r')" and "c < length (chunks r)"
  shows "raid_io r' = raid_io r" "parity_chunk r' = parity_chunk r"
    "first_data_chunk r' = first_data_chunk r" "last_data_chunk r' = last_data_chunk r"
    "chunk_requests_complete_cb r' = chunk_requests_complete_cb r"
    "degraded_chunk r' = degraded_chunk r" "stripe r' = stripe r" "status r' = status r"
    "iov_offset r' = iov_offset r" "init_iov_offset r' = init_iov_offset r" "req_id r' = req_id r"
    "length (chunks r') = length (chunks r)"
    "map req_blocks (chunks r') = map req_blocks (chunks r)"
    "map req_offset (chunks r') = map req_offset (chunks r)"
    "map preread_blocks (chunks r') = map preread_blocks (chunks r)"
    "map preread_offset (chunks r') = map preread_offset (chunks r)"
    "map index (chunks r') = map index (chunks r)"
    "map iovs (chunks r') = map iovs (chunks r)"
    "map iovcnt (chunks r') = map iovcnt (chunks r)"
    "map iov (chunks r') = map iov (chunks r)"
    "remaining r' = remaining r + 1"
  using assms
  by (auto simp: raid5_submit_chunk_request_def Let_def map_update_id)

lemma bind_and_preread_frame:
  assumes "bind_and_preread w r c = (w', r')" and "c < length (chunks r)"
  shows "raid_io r' = raid_io r" "parity_chunk r' = parity_chunk r"
    "first_data_chunk r' = first_data_chunk r" "last_data_chunk r' = last_data_chunk r"
    "chunk_requests_complete_cb r' = chunk_requests_complete_cb r"
    "degraded_chunk r' = degraded_chunk r" "stripe r' = stripe r" "status r' = status r"
    "iov_offset r' = iov_offset r" "init_iov_offset r' = init_iov_offset r" "req_id r' = req_id r"
    "length (chunks r') = length (chunks r)"
    "map req_blocks (chunks r') = map req_blocks (chunks r)"
    "map req_offset (chunks r') = map req_offset (chunks r)"
    "map preread_blocks (chunks r') = map preread_blocks (chunks r)"
    "map preread_offset (chunks r') = map preread_offset (chunks r)"
    "map index (chunks r') = map index (chunks r)"
    "map iovs (chunks r') = map iovs (chunks r)"
    "map iovcnt (chunks r') = map iovcnt (chunks r)"
  using assms
  by (auto simp: bind_and_preread_def chunk_bind_buffer_def raid5_submit_chunk_request_def
        Let_def map_update_id split: if_splits)

lemma chunk_set_preread_frame [simp]:
  "raid_io (chunk_set_preread r c a b) = raid_io r"
  "parity_chunk (chunk_set_preread r c a b) = parity_chunk r"
  "first_data_chunk (chunk_set_preread r c a b) = first_data_chunk r"
  "last_data_chunk (chunk_set_preread r c a b) = last_data_chunk r"
  "chunk_requests_complete_cb (chunk_set_preread r c a b) = chunk_requests_complete_cb r"
  "degraded_chunk (chunk_set_preread r c a b) = degraded_chunk r"
  "stripe (chunk_set_preread r c a b) = stripe r"
  "status (chunk_set_preread r c a b) = status r"
  "remaining (chunk_set_preread r c a b) = remaining r"
  "iov_offset (chunk_set_preread r c a b) = iov_offset r"
  "init_iov_offset (chunk_set_preread r c a b) = init_iov_offset r"
  "req_id (chunk_set_preread r c a b) = req_id r"
  "length (chunks (chunk_set_preread r c a b)) = length (chunks r)"
  "map req_blocks (chunks (chunk_set_preread r c a b)) = map req_blocks (chunks r)"
  "map req_offset (chunks (chunk_set_preread r c a b)) = map req_offset (chunks r)"
  "map index (chunks (chunk_set_preread r c a b)) = map index (chunks r)"
  "map iovs (chunks (chunk_set_preread r c a b)) = map iovs (chunks r)"
  "map iovcnt (chunks (chunk_set_preread r c a b)) = map iovcnt (chunks r)"
  "map iov (chunks (chunk_set_preread r c a b)) = map iov (chunks r)"
  by (simp_all add: chunk_set_preread_def map_update_id)

lemma stripe_write_loop_frame:
  assumes "stripe_write_loop w r b cs = (w', r')" and "\<forall>c\<in>set cs. c < length (chunks r)"
  shows "raid_io r' = raid_io r \<and> parity_chunk r' = parity_chunk r \<and>
    first_data_chunk r' = first_data_chunk r \<and> last_data_chunk r' = last_data_chunk r \<and>
    chunk_requests_complete_cb r' = chunk_requests_complete_cb r \<and>
    degraded_chunk r' = degraded_chunk r \<and> stripe r' = stripe r \<and> status r' = status r \<and>
    iov_offset r' = iov_offset r \<and> init_iov_offset r' = init_iov_offset r \<and>
    req_id r' = req_id r \<and>
    length (chunks r') = length (chunks r) \<and>
    map req_blocks (chunks r') = map req_blocks (chunks r) \<and>
    map req_offset (chunks r') = map req_offset (chunks r) \<and>
    map index (chunks r') = map index (chunks r) \<and>
    map iovs (chunks r') = map iovs (chunks r) \<and>
    map iovcnt (chunks r') = map iovcnt (chunks r)"
  using assms
proof (induction cs arbitrary: w r)
  case Nil
  then show ?case by simp
next
  case (Cons c cs)
  obtain off blocks where wp: "write_preread r b c = (off, blocks)"
    by (cases "write_preread r b c")
  obtain w1 r1 where bp: "bind_and_preread w (chunk_set_preread r c off blocks) c = (w1, r1)"
    by (cases "bind_and_preread w (chunk_set_preread r c off blocks) c")
  have c: "c < length (chunks (chunk_set_preread r c off blocks))"
    using Cons.prems(2) by simp
  note f = bind_and_preread_frame [OF bp c]
  from Cons.prems wp bp have l: "stripe_write_loop w1 r1 b cs = (w', r')" by simp
  have "\<forall>c\<in>set cs. c < length (chunks r1)"
    using Cons.prems(2) f(12) by simp
  from Cons.IH [OF l this] f
  show ?case by simp
qed

lemma preread_balance_loop_sum:
  "preread_balance_loop r b cs =
     b + (\<Sum>c\<leftarrow>cs.
        (if req_blocks (chunks r ! c) < req_blocks (chunks r ! parity_chunk r) then 1 else 0)
        - (if 0 < req_blocks (chunks r ! c) then 1 else 0))"
  by (induction cs arbitrary: b) (simp_all add: Let_def)

lemma set_parity_window_frame [simp]:
  "raid_io (set_parity_window r) = raid_io r"
  "parity_chunk (set_parity_window r) = parity_chunk r"
  "first_data_chunk (set_parity_window r) = first_data_chunk r"
  "last_data_chunk (set_parity_window r) = last_data_chunk r"
  "degraded_chunk (set_parity_window r) = degraded_chunk r"
  "stripe (set_parity_window r) = stripe r"
  "status (set_parity_window r) = status r"
  "remaining (set_parity_window r) = remaining r"
  "iov_offset (set_parity_window r) = iov_offset r"
  "init_iov_offset (set_parity_window r) = init_iov_offset r"
  "req_id (set_parity_window r) = req_id r"
  "length (chunks (set_parity_window r)) = length (chunks r)"
  by (simp_all add: set_parity_window_def chunk_set_req_def Let_def)

lemma for_each_chunk_cong:
  "raid_io r' = raid_io r \<Longrightarrow> for_each_chunk r' = for_each_chunk r"
  by (simp add: for_each_chunk_def)

lemma for_each_data_chunk_cong:
  "raid_io r' = raid_io r \<Longrightarrow> parity_chunk r' = parity_chunk r \<Longrightarrow>
   for_each_data_chunk r' = for_each_data_chunk r"
  by (simp add: for_each_data_chunk_def for_each_chunk_def)

lemma map_eq_nth: "map f xs = map f ys \<Longrightarrow> c < length ys \<Longrightarrow> f (xs ! c) = f (ys ! c)"
  by (metis length_map nth_map)

lemma spec_vote_balance_cong:
  assumes "raid_io r' = raid_io r" and "parity_chunk r' = parity_chunk r"
    and "map req_blocks (chunks r') = map req_blocks (chunks r)"
    and "length (chunks r) = num_base_bdevs (raid_bdev (raid_io r))"
    and "parity_chunk r < length (chunks r)"
  shows "spec_vote_balance r' = spec_vote_balance r"
proof -
  have d: "for_each_data_chunk r' = for_each_data_chunk r"
    using assms(1,2) by (rule for_each_data_chunk_cong)
  have n: "req_blocks (chunks r' ! c) = req_blocks (chunks r ! c)" if "c < length (chunks r)" for c
    using assms(3) that by (rule map_eq_nth)
  have s: "\<forall>c \<in> set (for_each_data_chunk r). c < length (chunks r)"
    using assms(4) by (simp add: for_each_data_chunk_def for_each_chunk_def)
  show ?thesis
    unfolding spec_vote_balance_def d assms(2)
    by (rule arg_cong [where f = sum_list], rule map_cong) (use n s assms(5) in simp_all)
qed

text \<open>
  Claim C3.  For a write stripe request without a degraded chunk, \<open>raid5_stripe_write\<close>
  chooses the callback by the balance of the vote over the data chunks (\<open>+1\<close> for a chunk
  whose \<open>req_blocks\<close> is less than that of the parity chunk, \<open>-1\<close> for a chunk whose
  \<open>req_blocks\<close> is greater than \<open>0\<close>): read-modify-write exactly when the balance is
  greater than \<open>0\<close>, reconstruct-write exactly when it is at most \<open>0\<close>; the callback runs at
  once when no preread was submitted.
\<close>

theorem write_strategy_vote:
  assumes "degraded_chunk stripe_req = None"
    and "length (chunks stripe_req) = num_base_bdevs (raid_bdev (raid_io stripe_req))"
    and "parity_chunk stripe_req < length (chunks stripe_req)"
    and "stripe_write_plan w stripe_req = (w', r')"
  shows "raid5_stripe_write w stripe_req =
           (if remaining r' = 0 then call_chunk_requests_complete_cb w' r' else (w', r')) \<and>
         (chunk_requests_complete_cb r' = CB_raid5_stripe_write_preread_complete_rmw
            \<longleftrightarrow> 0 < spec_vote_balance r') \<and>
         (chunk_requests_complete_cb r' = CB_raid5_stripe_write_preread_complete
            \<longleftrightarrow> spec_vote_balance r' \<le> 0)"
proof -
  let ?a = "set_parity_window stripe_req"
  let ?b = "preread_balance_loop ?a 0 (for_each_data_chunk ?a)"
  let ?a' = "?a\<lparr>chunk_requests_complete_cb :=
            (if ?b > 0 then CB_raid5_stripe_write_preread_complete_rmw
             else CB_raid5_stripe_write_preread_complete)\<rparr>"
  have loop: "stripe_write_loop w ?a' ?b (for_each_chunk ?a') = (w', r')"
    using assms(4) by (simp add: stripe_write_plan_def Let_def)
  have rng: "\<forall>c\<in>set (for_each_chunk ?a'). c < length (chunks ?a')"
    using assms(2) by (simp add: for_each_chunk_def)
  note f = stripe_write_loop_frame [OF loop rng]
  have b: "?b = spec_vote_balance ?a"
    by (simp add: preread_balance_loop_sum spec_vote_balance_def)
  have "spec_vote_balance r' = spec_vote_balance ?a'"
    using f assms(2,3) by (intro spec_vote_balance_cong) simp_all
  also have "\<dots> = spec_vote_balance ?a"
    by (simp add: spec_vote_balance_def for_each_data_chunk_def for_each_chunk_def)
  finally have v: "spec_vote_balance r' = ?b" using b by simp
  have cb: "chunk_requests_complete_cb r' =
      (if ?b > 0 then CB_raid5_stripe_write_preread_complete_rmw
       else CB_raid5_stripe_write_preread_complete)"
    using f by simp
  have w: "raid5_stripe_write w stripe_req =
           (if remaining r' = 0 then call_chunk_requests_complete_cb w' r' else (w', r'))"
    using assms(1,4) by (simp add: raid5_stripe_write_def)
  show ?thesis using w cb v by simp
qed

lemmas ex_defs = ex_world_def ex_obj_def ex_io_def ex_stripe_def ex_chunk_def ex_raid_bdev_def

lemmas plan_defs = stripe_request_init_def handle_stripe_chunk_def chunk_set_req_def
  raid5_get_data_chunk_def raid5_chunk_data_index_def raid5_stripe_data_chunks_num_def
  for_each_chunk_def for_each_data_chunk_def

lemmas write_plan_defs = stripe_write_plan_def set_parity_window_def write_preread_def chunk_set_req_def
  bind_and_preread_def chunk_bind_buffer_def chunk_set_preread_def raid5_submit_chunk_request_def
  raid5_submit_chunk_request_inner_def

theorem write_strategy_vote_witness:
  "spec_vote_balance (snd (stripe_write_plan ex_world
     (stripe_request_init ex_world (ex_obj 0)
        (ex_io SPDK_BDEV_IO_TYPE_WRITE 0 1 [replicate 8 17]) 0 0 1 0))) = 0 \<and>
   chunk_requests_complete_cb (snd (stripe_write_plan ex_world
     (stripe_request_init ex_world (ex_obj 0)
        (ex_io SPDK_BDEV_IO_TYPE_WRITE 0 1 [replicate 8 17]) 0 0 1 0)))
     = CB_raid5_stripe_write_preread_complete"
proof -
  let ?r = "stripe_request_init ex_world (ex_obj 0)
        (ex_io SPDK_BDEV_IO_TYPE_WRITE 0 1 [replicate 8 17]) 0 0 1 0"
  have r: "?r = \<lparr>req_id = 0, raid_io = ex_io SPDK_BDEV_IO_TYPE_WRITE 0 1 [replicate 8 17],
     stripe = 0, remaining = 0, status = SPDK_BDEV_IO_STATUS_SUCCESS,
     chunk_requests_complete_cb = CB_raid5_complete_stripe_request,
     iov_offset = 0, init_iov_offset = 0, first_data_chunk = 0, last_data_chunk = 0,
     parity_chunk = 2, degraded_chunk = None,
     chunks = [ex_chunk\<lparr>req_blocks := 1\<rparr>, ex_chunk\<lparr>index := 1\<rparr>, ex_chunk\<lparr>index := 2\<rparr>]\<rparr>"
    by (simp add: plan_defs ex_defs Let_def upt_conv_Cons)
  have h1: "degraded_chunk ?r = None" unfolding r by simp
  have h2: "length (chunks ?r) = num_base_bdevs (raid_bdev (raid_io ?r))"
    unfolding r by (simp add: ex_io_def ex_raid_bdev_def)
  have h3: "parity_chunk ?r < length (chunks ?r)" unfolding r by simp
  have h4: "stripe_write_plan ex_world ?r =
      (fst (stripe_write_plan ex_world ?r), snd (stripe_write_plan ex_world ?r))"
    by simp
  have v: "spec_vote_balance (snd (stripe_write_plan ex_world ?r)) = 0"
    unfolding r
    by (simp add: spec_vote_balance_def write_plan_defs for_each_chunk_def
          for_each_data_chunk_def ex_defs Let_def upt_conv_Cons)
  from write_strategy_vote [OF h1 h2 h3 h4] v show ?thesis by simp
qed

section \<open>Reclaiming stripes\<close>


lemma reclaim_loop_result:
  assumes "reclaim_loop w t r xs = (n, w')"
  shows "\<exists>k. k \<le> length (filter (\<lambda>sid. refs (stripes w ! sid) = 0) xs) \<and>
           n = r + int k \<and>
           active_stripes w' =
             fold remove1 (take k (filter (\<lambda>sid. refs (stripes w ! sid) = 0) xs)) (active_stripes w) \<and>
           free_stripes w' =
             free_stripes w @ take k (filter (\<lambda>sid. refs (stripes w ! sid) = 0) xs) \<and>
           active_stripes_hash w' =
             filter (\<lambda>(key, v). key \<notin> (\<lambda>sid. stripe_index (stripes w ! sid)) `
                        set (take k (filter (\<lambda>sid. refs (stripes w ! sid) = 0) xs)))
                    (active_stripes_hash w) \<and>
           (k < length (filter (\<lambda>sid. refs (stripes w ! sid) = 0) xs) \<longrightarrow> t < n) \<and>
           (filter (\<lambda>sid. refs (stripes w ! sid) = 0) xs \<noteq> [] \<longrightarrow> 1 \<le> k) \<and>
           (2 \<le> k \<longrightarrow> r + int k - 1 \<le> t)"
  using assms
proof (induction xs arbitrary: w r)
  case Nil
  then show ?case by simp
next
  case (Cons sid xs)
  let ?E = "\<lambda>w xs. filter (\<lambda>sid. refs (stripes w ! sid) = 0) xs"
  show ?case
  proof (cases "refs (stripes w ! sid) > 0")
    case True
    then have "reclaim_loop w t r xs = (n, w')" using Cons.prems by simp
    from Cons.IH [OF this] True show ?thesis by simp
  next
    case False
    let ?w1 = "w\<lparr>active_stripes := remove1 sid (active_stripes w),
                   free_stripes := free_stripes w @ [sid],
                   active_stripes_hash :=
                     filter (\<lambda>(k, v). k \<noteq> stripe_index (stripes w ! sid)) (active_stripes_hash w)\<rparr>"
    have e: "?E w (sid # xs) = sid # ?E w xs" using False by simp
    show ?thesis
    proof (cases "r + 1 > t")
      case True
      then have "n = r + 1" "w' = ?w1" using Cons.prems False by (auto simp: Let_def)
      then show ?thesis using e True
        by (intro exI [of _ 1]) (auto simp: Let_def)
    next
      case f: False
      then have l: "reclaim_loop ?w1 t (r + 1) xs = (n, w')"
        using Cons.prems False by (simp add: Let_def)
      have s: "stripes ?w1 = stripes w" by simp
      from Cons.IH [OF l] obtain k where k:
        "k \<le> length (?E w xs)" "n = r + 1 + int k"
        "active_stripes w' = fold remove1 (take k (?E w xs)) (remove1 sid (active_stripes w))"
        "free_stripes w' = (free_stripes w @ [sid]) @ take k (?E w xs)"
        "active_stripes_hash w' =
             filter (\<lambda>(key, v). key \<notin> (\<lambda>sid. stripe_index (stripes w ! sid)) ` set (take k (?E w xs)))
               (filter (\<lambda>(k, v). k \<noteq> stripe_index (stripes w ! sid)) (active_stripes_hash w))"
        "k < length (?E w xs) \<longrightarrow> t < n"
        "2 \<le> k \<longrightarrow> r + 1 + int k - 1 \<le> t"
        by (auto simp: s)
      have c: "2 \<le> Suc k \<longrightarrow> r + int (Suc k) - 1 \<le> t"
        using k(7) f by (cases "k = 1") auto
      show ?thesis
        using k(1-6) e c
        by (intro exI [of _ "Suc k"]) (auto simp: Let_def intro!: filter_cong)
    qed
  qed
qed




text \<open>The count returned is at most one more than the target count (and at most one when the target is negative).\<close>

lemma reclaim_count_bound:
  assumes "raid5_reclaim_stripes w = (n, w')"
  shows "n \<le> max 1 (int (raid_max_stripes w div 8) - int (raid_max_stripes w)
              + int (length (active_stripes_hash w)) + 1)"
proof -
  let ?t = "int (raid_max_stripes w div 8) - int (raid_max_stripes w)
              + int (length (active_stripes_hash w))"
  have l: "reclaim_loop w ?t 0 (rev (active_stripes w)) = (n, w')"
    using assms(1) by (simp add: raid5_reclaim_stripes_def Let_def)
  from reclaim_loop_result [OF l] obtain k where "n = int k" "2 \<le> k \<longrightarrow> 0 + int k - 1 \<le> ?t"
    by auto
  then show ?thesis by (cases "2 \<le> k") auto
qed



section \<open>Failure of a chunk request\<close>

lemma complete_chunk_requests_pending:
  "int (length successes) < remaining r \<Longrightarrow>
   complete_chunk_requests w r successes =
     (w, r\<lparr>status := (if False \<in> set successes then SPDK_BDEV_IO_STATUS_FAILED else status r),
           remaining := remaining r - int (length successes)\<rparr>)"
proof (induction successes arbitrary: r)
  case Nil
  then show ?case by simp
next
  case (Cons s ss)
  let ?r1 = "(if \<not> s then r\<lparr>status := SPDK_BDEV_IO_STATUS_FAILED\<rparr> else r)
               \<lparr>remaining := remaining r - 1\<rparr>"
  have n: "remaining ?r1 \<noteq> 0" using Cons.prems by auto
  have step: "raid5_complete_chunk_request w r s = (w, ?r1)"
    using n by (auto simp: raid5_complete_chunk_request_def Let_def)
  have "int (length ss) < remaining ?r1" using Cons.prems by auto
  from Cons.IH [OF this] step show ?case
    by (cases s) (auto simp: algebra_simps)
qed

lemma complete_chunk_requests_append:
  "complete_chunk_requests w r (xs @ ys) =
     (let (w, r) = complete_chunk_requests w r xs in complete_chunk_requests w r ys)"
  by (induction xs arbitrary: w r) (simp_all add: Let_def split: prod.split)

text \<open>The blocks that \<open>raid5_complete_stripe_request\<close> reports upstream.\<close>

lemma raid5_complete_stripe_request_reports:
  "Ev_complete_part (io_id (raid_io r))
      (sum_list (map (\<lambda>c. req_blocks (chunks r ! c)) (for_each_data_chunk r))) (status r)
     \<in> set (trace (fst (raid5_complete_stripe_request w r)))"
  by (simp add: raid5_complete_stripe_request_def raid5_stripe_request_put_def
        raid_bdev_io_complete_part_def raid5_io_channel_retry_request_def Let_def
        for_each_data_chunk_def for_each_chunk_def
        split: option.split list.split prod.split)

text \<open>
  Claim C8.  A stripe request has \<open>remaining\<close> chunk requests in flight and they complete,
  at least one of them with a failure.  Nothing is done before the last completion (the
  world is as it was after every proper prefix of the completions); at the last one the
  callback in \<open>chunk_requests_complete_cb\<close> is not called: the request goes to
  \<open>raid5_complete_stripe_request\<close> with the status \<open>FAILED\<close>, which reports \<open>FAILED\<close>
  upstream.
\<close>

theorem chunk_failure_latched:
  assumes "remaining r = int (length successes)" and "False \<in> set successes"
  shows "complete_chunk_requests w r successes =
           raid5_complete_stripe_request w (r\<lparr>status := SPDK_BDEV_IO_STATUS_FAILED, remaining := 0\<rparr>) \<and>
         (\<forall>k < length successes. fst (complete_chunk_requests w r (take k successes)) = w) \<and>
         Ev_complete_part (io_id (raid_io r))
            (sum_list (map (\<lambda>c. req_blocks (chunks r ! c)) (for_each_data_chunk r)))
            SPDK_BDEV_IO_STATUS_FAILED
           \<in> set (trace (fst (complete_chunk_requests w r successes)))"
proof -
  from assms(2) have ne: "successes \<noteq> []" by auto
  then obtain pre l where sp: "successes = pre @ [l]"
    by (metis append_butlast_last_id)
  let ?r1 = "r\<lparr>status := (if False \<in> set pre then SPDK_BDEV_IO_STATUS_FAILED else status r),
              remaining := remaining r - int (length pre)\<rparr>"
  have p: "complete_chunk_requests w r pre = (w, ?r1)"
    using assms(1) sp by (intro complete_chunk_requests_pending) simp
  have f: "False \<in> set pre \<or> \<not> l" using assms(2) sp by auto
  have one: "remaining r - int (length pre) = 1" using assms(1) sp by simp
  have last: "raid5_complete_chunk_request w ?r1 l =
      raid5_complete_stripe_request w (r\<lparr>status := SPDK_BDEV_IO_STATUS_FAILED, remaining := 0\<rparr>)"
    using f one by (auto simp: raid5_complete_chunk_request_def Let_def)
  have a: "complete_chunk_requests w r successes =
           raid5_complete_stripe_request w (r\<lparr>status := SPDK_BDEV_IO_STATUS_FAILED, remaining := 0\<rparr>)"
    unfolding sp complete_chunk_requests_append p using last
    by (simp add: Let_def split: prod.split)
  have b: "fst (complete_chunk_requests w r (take k successes)) = w" if "k < length successes" for k
  proof -
    have "int (length (take k successes)) < remaining r" using that assms(1) by simp
    from complete_chunk_requests_pending [OF this] show ?thesis by simp
  qed
  have c: "Ev_complete_part (io_id (raid_io r))
            (sum_list (map (\<lambda>c. req_blocks (chunks r ! c)) (for_each_data_chunk r)))
            SPDK_BDEV_IO_STATUS_FAILED
           \<in> set (trace (fst (complete_chunk_requests w r successes)))"
    unfolding a
    using raid5_complete_stripe_request_reports
      [of "r\<lparr>status := SPDK_BDEV_IO_STATUS_FAILED, remaining := 0\<rparr>" w]
    by (simp add: for_each_data_chunk_def for_each_chunk_def)
  show ?thesis using a b c by blast
qed

theorem chunk_failure_latched_witness:
  "complete_chunk_requests ex_world
     ((ex_obj 0)\<lparr>remaining := 2,
        chunk_requests_complete_cb := CB_raid5_stripe_write_preread_complete_rmw\<rparr>) [False, True] =
   raid5_complete_stripe_request ex_world
     ((ex_obj 0)\<lparr>remaining := 2,
        chunk_requests_complete_cb := CB_raid5_stripe_write_preread_complete_rmw,
        status := SPDK_BDEV_IO_STATUS_FAILED, remaining := 0\<rparr>)"
proof -
  let ?r = "(ex_obj 0)\<lparr>remaining := 2,
        chunk_requests_complete_cb := CB_raid5_stripe_write_preread_complete_rmw\<rparr>"
  have h1: "remaining ?r = int (length [False, True])" by simp
  have h2: "False \<in> set [False, True]" by simp
  from chunk_failure_latched [OF h1 h2, of ex_world] show ?thesis by simp
qed

section \<open>A reconstructing read whose mapping fails\<close>

lemmas dispatch_defs = handle_stripe_request_def store_request_def
  raid5_submit_stripe_request_def raid5_check_degraded_def

lemmas read_defs = raid5_stripe_read_def read_degraded_prepare_def chunk_bind_buffer_def
  chunk_set_preread_def raid5_submit_chunk_request_def raid5_submit_chunk_request_inner_def
  raid5_chunk_map_req_data_def raid5_chunk_map_iov_def chunk_iovs_def chunk_iovs_update_def
  c_realloc_def

lemmas xor_defs = chunk_xor_def chunk_memset_def chunk_memcpy_def raid5_xor_iovs_def
  raid5_memcpy_iovs_def raid5_memset_iovs_def iovs_apply_def raid5_xor_buf_def c_memcpy_def
  sizeof_long_def chunk_iovs_def chunk_iovs_update_def

lemmas complete_defs = raid5_complete_stripe_request_def raid5_abort_stripe_request_def
  raid5_stripe_request_put_def raid_bdev_io_complete_part_def
  raid5_io_channel_retry_request_def

lemmas ex_read_defs = ex_read_aborted_world_def ex_read_aborted_def ex_read_world_def
  ex_read_in_flight_def ex_read_planned_def ex_degraded_read_def

text \<open>The submission: the stripe is taken from the free list, the request is planned, queued and submitted.\<close>

lemma ex_read_get_stripe:
  "raid5_submit_rw_request ex_world ex_degraded_read =
     raid5_handle_stripe
       (ex_world\<lparr>stripes := [ex_stripe 0 1, ex_stripe 1 0], active_stripes_hash := [(0, 0)],
          active_stripes := [0], free_stripes := [1],
          base_bdev_io_remaining := (\<lambda>_. 0)(0 := 4)\<rparr>)
       ex_degraded_read 0 2 4 0"
  by (simp add: raid5_submit_rw_request_def raid5_get_stripe_def stripe_blocks_def
        raid5_stripe_data_chunks_num_def ex_degraded_read_def ex_defs Let_def)

lemma ex_read_no_split:
  "raid5_handle_stripe
       (ex_world\<lparr>stripes := [ex_stripe 0 1, ex_stripe 1 0], active_stripes_hash := [(0, 0)],
          active_stripes := [0], free_stripes := [1],
          base_bdev_io_remaining := (\<lambda>_. 0)(0 := 4)\<rparr>)
       ex_degraded_read 0 2 4 0 =
   handle_stripe_request
       (ex_world\<lparr>stripes := [ex_stripe 0 1, ex_stripe 1 0], active_stripes_hash := [(0, 0)],
          active_stripes := [0], free_stripes := [1],
          base_bdev_io_remaining := (\<lambda>_. 0)(0 := 4)\<rparr>)
       ex_degraded_read 0 2 4 0"
  by (simp add: raid5_handle_stripe.simps ex_degraded_read_def ex_io_def)

lemma ex_read_submitted:
  "handle_stripe_request
       (ex_world\<lparr>stripes := [ex_stripe 0 1, ex_stripe 1 0], active_stripes_hash := [(0, 0)],
          active_stripes := [0], free_stripes := [1],
          base_bdev_io_remaining := (\<lambda>_. 0)(0 := 4)\<rparr>)
       ex_degraded_read 0 2 4 0 = ex_read_world"
  by (simp add: ex_read_defs ex_defs dispatch_defs plan_defs read_defs Let_def upt_conv_Cons)

lemma ex_read_world_reached:
  "raid5_submit_rw_request ex_world ex_degraded_read = ex_read_world"
  by (simp only: ex_read_get_stripe ex_read_no_split ex_read_submitted)

lemma ex_read_in_flight_fields:
  "remaining ex_read_in_flight = 2"
  "status ex_read_in_flight = SPDK_BDEV_IO_STATUS_SUCCESS"
  "chunk_requests_complete_cb ex_read_in_flight = CB_raid5_complete_reconstructed_stripe_request"
  "degraded_chunk ex_read_in_flight = Some 0"
  "init_iov_offset ex_read_in_flight = 0"
  "parity_chunk ex_read_in_flight = 2"
  "num_base_bdevs (raid_bdev (raid_io ex_read_in_flight)) = 3"
  by (simp_all add: ex_read_defs ex_obj_def ex_io_def ex_raid_bdev_def)

text \<open>The two prereads succeed: the second completion calls the callback.\<close>

lemma ex_read_callback:
  "complete_chunk_requests ex_read_world ex_read_in_flight [True, True] =
     raid5_complete_reconstructed_stripe_request ex_read_world (ex_read_in_flight\<lparr>remaining := 0\<rparr>)"
  by (simp add: raid5_complete_chunk_request_def call_chunk_requests_complete_cb_def
        ex_read_in_flight_fields)

text \<open>
  The callback: the chunk of the degraded member is rebuilt; in the second loop the
  mapping of chunk 1 fails with \<open>-EINVAL\<close> and the request is aborted, which completes it;
  the loop goes on and the function ends with \<open>raid5_complete_stripe_request\<close>.
\<close>

lemma ex_read_rebuilt:
  "reconstruct_loop (chunk_memset (ex_read_in_flight\<lparr>remaining := 0\<rparr>) 0 0) 0 [0, 1, 2] =
     ex_read_in_flight\<lparr>remaining := 0\<rparr>"
  by (simp add: ex_read_defs ex_defs xor_defs Let_def)

lemma ex_read_copy_loop:
  "reconstruct_copy_loop ex_read_world (ex_read_in_flight\<lparr>remaining := 0, iov_offset := 0\<rparr>) 0 [0, 1] =
     (ex_read_aborted_world, ex_read_aborted)"
  by (simp add: ex_read_defs ex_defs complete_defs for_each_data_chunk_def for_each_chunk_def
        Let_def upt_conv_Cons fun_eq_iff raid5_chunk_map_req_data_def raid5_chunk_map_iov_def
        EINVAL_def errno_to_status_def c_abs_def ENOMEM_def xor_defs replicate_add [symmetric])

lemma ex_read_second_completion:
  "raid5_complete_reconstructed_stripe_request ex_read_world (ex_read_in_flight\<lparr>remaining := 0\<rparr>) =
     raid5_complete_stripe_request ex_read_aborted_world ex_read_aborted"
proof -
  have f: "for_each_chunk (ex_read_in_flight\<lparr>remaining := 0\<rparr>) = [0, 1, 2]"
    "for_each_data_chunk (ex_read_in_flight\<lparr>remaining := 0, iov_offset := 0\<rparr>) = [0, 1]"
    by (simp_all add: for_each_chunk_def for_each_data_chunk_def ex_read_in_flight_fields
          upt_conv_Cons)
  have m: "chunk_memset (ex_read_in_flight\<lparr>remaining := 0\<rparr>) 0 0 = ex_read_in_flight\<lparr>remaining := 0\<rparr>"
    by (simp add: ex_read_defs ex_defs xor_defs Let_def)
  have cf: "for_each_chunk (chunk_memset (ex_read_in_flight\<lparr>remaining := 0\<rparr>) 0 0) = [0, 1, 2]"
    unfolding m by (rule f)
  show ?thesis
    unfolding raid5_complete_reconstructed_stripe_request_def Let_def
    by (simp add: ex_read_in_flight_fields cf ex_read_rebuilt f ex_read_copy_loop
          del: reconstruct_loop.simps reconstruct_copy_loop.simps One_nat_def)
qed

lemma ex_read_final:
  "trace (fst (raid5_complete_stripe_request ex_read_aborted_world ex_read_aborted)) =
     [Ev_bdev_io 1 SPDK_BDEV_IO_TYPE_READ 0 4 [replicate 32 7],
      Ev_bdev_io 2 SPDK_BDEV_IO_TYPE_READ 2 2 [replicate 16 7],
      Ev_complete_part 0 4 SPDK_BDEV_IO_STATUS_FAILED,
      Ev_complete_part 0 4 SPDK_BDEV_IO_STATUS_FAILED]"
  "map req_id (stripe_request_mempool
       (fst (raid5_complete_stripe_request ex_read_aborted_world ex_read_aborted))) = [1, 0, 0]"
  by (simp_all add: ex_read_defs ex_defs complete_defs for_each_data_chunk_def for_each_chunk_def
        Let_def upt_conv_Cons u64_sub_def)

text \<open>
  Claim C9 fails on this path.  The request is submitted and its two prereads complete
  with success; \<open>raid_bdev_io_complete_part\<close> is then called twice for the one stripe
  request, and the request is put back into the pool twice.
\<close>

theorem reconstructed_read_completes_twice:
  "hd (requests (stripes (raid5_submit_rw_request ex_world ex_degraded_read) ! 0)) = ex_read_in_flight \<and>
   trace (fst (complete_chunk_requests (raid5_submit_rw_request ex_world ex_degraded_read)
                 ex_read_in_flight [True, True])) =
     [Ev_bdev_io 1 SPDK_BDEV_IO_TYPE_READ 0 4 [replicate 32 7],
      Ev_bdev_io 2 SPDK_BDEV_IO_TYPE_READ 2 2 [replicate 16 7],
      Ev_complete_part 0 4 SPDK_BDEV_IO_STATUS_FAILED,
      Ev_complete_part 0 4 SPDK_BDEV_IO_STATUS_FAILED] \<and>
   map req_id (stripe_request_mempool
       (fst (complete_chunk_requests (raid5_submit_rw_request ex_world ex_degraded_read)
                 ex_read_in_flight [True, True]))) = [1, 0, 0]"
proof -
  have q: "hd (requests (stripes ex_read_world ! 0)) = ex_read_in_flight"
    by (simp add: ex_read_world_def ex_world_def ex_stripe_def)
  show ?thesis
    unfolding ex_read_world_reached ex_read_callback ex_read_second_completion
    using q ex_read_final by simp
qed

section \<open>A request that finds no stripe\<close>

text \<open>
  A walk over active stripes that are all referenced reclaims nothing and leaves the cache
  as it was.
\<close>

lemma reclaim_loop_none:
  "\<forall>sid \<in> set xs. 0 < refs (stripes w ! sid) \<Longrightarrow> reclaim_loop w t r xs = (r, w)"
  by (induction xs) simp_all

lemma raid5_get_stripe_fails:
  assumes "map_of (active_stripes_hash w) idx = None" and "free_stripes w = []"
    and "\<forall>sid \<in> set (active_stripes w). 0 < refs (stripes w ! sid)"
  shows "raid5_get_stripe w idx = (None, w)"
proof -
  have "raid5_reclaim_stripes w = (0, w)"
    using assms(3) by (simp add: raid5_reclaim_stripes_def Let_def reclaim_loop_none)
  then show ?thesis
    using assms(1,2) by (simp add: raid5_get_stripe_def Let_def)
qed

lemma raid5_complete_stripe_request_retries:
  assumes "retry_queue w (raid_ch (raid_io r)) = (cb, arg) # rest"
    and "base_bdev_io_remaining w (io_id (raid_io r)) =
           sum_list (map (\<lambda>c. req_blocks (chunks r ! c)) (for_each_data_chunk r))"
  shows "retry_queue (fst (raid5_complete_stripe_request w r)) (raid_ch (raid_io r)) = rest \<and>
         last (trace (fst (raid5_complete_stripe_request w r))) = Ev_wait_cb cb arg"
  using assms
  by (simp add: raid5_complete_stripe_request_def raid5_stripe_request_put_def
        raid_bdev_io_complete_part_def raid5_io_channel_retry_request_def Let_def
        for_each_data_chunk_def for_each_chunk_def
        split: option.split)

text \<open>
  Claim C7. When the stripe of an upstream request is not in the hash, the free list is
  empty and every active stripe is referenced, \<open>raid5_get_stripe\<close> returns no stripe and
  \<open>raid5_submit_rw_request\<close> does nothing but append the request, with the callback
  \<open>_raid5_submit_rw_request\<close>, to the retry queue of its channel: the trace is unchanged,
  so nothing is reported upstream. When later a stripe request of the same channel
  completes the last part of its upstream request while that entry is at the head of the
  queue, \<open>raid5_complete_stripe_request\<close> takes the entry off the queue and calls its
  callback, which submits the queued request again.
\<close>

theorem stripe_acquisition_failure_is_retried:
  assumes "map_of (active_stripes_hash w) (offset_blocks rio div stripe_blocks (raid_bdev rio)) = None"
    and "free_stripes w = []"
    and "\<forall>sid \<in> set (active_stripes w). 0 < refs (stripes w ! sid)"
  shows "raid5_get_stripe w (offset_blocks rio div stripe_blocks (raid_bdev rio)) = (None, w) \<and>
         raid5_submit_rw_request w rio =
           w\<lparr>retry_queue := (retry_queue w)(raid_ch rio :=
                retry_queue w (raid_ch rio) @ [(WCB_raid5_submit_rw_request, rio)])\<rparr> \<and>
         trace (raid5_submit_rw_request w rio) = trace w \<and>
         (\<forall>w2 r rest.
            retry_queue w2 (raid_ch rio) = (WCB_raid5_submit_rw_request, rio) # rest \<and>
            raid_ch (raid_io r) = raid_ch rio \<and>
            base_bdev_io_remaining w2 (io_id (raid_io r)) =
              sum_list (map (\<lambda>c. req_blocks (chunks r ! c)) (for_each_data_chunk r))
            \<longrightarrow>
            retry_queue (fst (raid5_complete_stripe_request w2 r)) (raid_ch rio) = rest \<and>
            last (trace (fst (raid5_complete_stripe_request w2 r))) =
              Ev_wait_cb WCB_raid5_submit_rw_request rio \<and>
            wait_cb_call (fst (raid5_complete_stripe_request w2 r)) WCB_raid5_submit_rw_request rio =
              raid5_submit_rw_request (fst (raid5_complete_stripe_request w2 r)) rio)"
proof -
  note g = raid5_get_stripe_fails [OF assms]
  have s: "raid5_submit_rw_request w rio =
           w\<lparr>retry_queue := (retry_queue w)(raid_ch rio :=
                retry_queue w (raid_ch rio) @ [(WCB_raid5_submit_rw_request, rio)])\<rparr>"
    by (simp add: raid5_submit_rw_request_def Let_def g)
  have c: "retry_queue (fst (raid5_complete_stripe_request w2 r)) (raid_ch rio) = rest \<and>
            last (trace (fst (raid5_complete_stripe_request w2 r))) =
              Ev_wait_cb WCB_raid5_submit_rw_request rio"
    if "retry_queue w2 (raid_ch rio) = (WCB_raid5_submit_rw_request, rio) # rest"
      "raid_ch (raid_io r) = raid_ch rio"
      "base_bdev_io_remaining w2 (io_id (raid_io r)) =
              sum_list (map (\<lambda>c. req_blocks (chunks r ! c)) (for_each_data_chunk r))"
    for w2 r rest
    using raid5_complete_stripe_request_retries [of w2 r WCB_raid5_submit_rw_request rio rest] that
    by simp
  show ?thesis
    using g s c by (simp add: wait_cb_call_def)
qed

text \<open>
  The theorem at the cache whose two stripes are referenced and a write to stripe 2; the
  request that completes afterwards is an empty one on the same channel.
\<close>

theorem stripe_acquisition_failure_is_retried_witness:
  "raid5_get_stripe ex_busy_cache 2 = (None, ex_busy_cache) \<and>
   retry_queue (raid5_submit_rw_request ex_busy_cache ex_late_write) 0 =
     [(WCB_raid5_submit_rw_request, ex_late_write)] \<and>
   trace (raid5_submit_rw_request ex_busy_cache ex_late_write) = [] \<and>
   retry_queue (fst (raid5_complete_stripe_request
       (raid5_submit_rw_request ex_busy_cache ex_late_write) (ex_obj 0))) 0 = [] \<and>
   last (trace (fst (raid5_complete_stripe_request
       (raid5_submit_rw_request ex_busy_cache ex_late_write) (ex_obj 0)))) =
     Ev_wait_cb WCB_raid5_submit_rw_request ex_late_write"
proof -
  have h1: "map_of (active_stripes_hash ex_busy_cache)
      (offset_blocks ex_late_write div stripe_blocks (raid_bdev ex_late_write)) = None"
    by (simp add: ex_busy_cache_def ex_late_write_def ex_defs stripe_blocks_def raid5_stripe_data_chunks_num_def)
  have h2: "free_stripes ex_busy_cache = []"
    by (simp add: ex_busy_cache_def)
  have h3: "\<forall>sid \<in> set (active_stripes ex_busy_cache). 0 < refs (stripes ex_busy_cache ! sid)"
    by (simp add: ex_busy_cache_def ex_defs)
  have i: "offset_blocks ex_late_write div stripe_blocks (raid_bdev ex_late_write) = 2"
    by (simp add: ex_late_write_def ex_defs stripe_blocks_def raid5_stripe_data_chunks_num_def)
  have ch: "raid_ch ex_late_write = 0" "raid_ch (raid_io (ex_obj 0)) = 0"
    by (simp_all add: ex_late_write_def ex_defs)
  have q0: "retry_queue ex_busy_cache 0 = []" "trace ex_busy_cache = []"
    "base_bdev_io_remaining ex_busy_cache (io_id (raid_io (ex_obj 0))) = 0"
    by (simp_all add: ex_busy_cache_def ex_defs)
  have b: "sum_list (map (\<lambda>c. req_blocks (chunks (ex_obj 0) ! c)) (for_each_data_chunk (ex_obj 0))) = 0"
    by (simp add: ex_defs for_each_data_chunk_def for_each_chunk_def upt_conv_Cons)
  note t = stripe_acquisition_failure_is_retried [OF h1 h2 h3, unfolded i]
  from t have s: "raid5_submit_rw_request ex_busy_cache ex_late_write =
      ex_busy_cache\<lparr>retry_queue := (retry_queue ex_busy_cache)(0 :=
                [(WCB_raid5_submit_rw_request, ex_late_write)])\<rparr>"
    by (simp add: ch q0)
  from t have "retry_queue (raid5_submit_rw_request ex_busy_cache ex_late_write) (raid_ch ex_late_write) =
       (WCB_raid5_submit_rw_request, ex_late_write) # [] \<and>
            raid_ch (raid_io (ex_obj 0)) = raid_ch ex_late_write \<and>
            base_bdev_io_remaining (raid5_submit_rw_request ex_busy_cache ex_late_write) (io_id (raid_io (ex_obj 0))) =
              sum_list (map (\<lambda>c. req_blocks (chunks (ex_obj 0) ! c)) (for_each_data_chunk (ex_obj 0)))
            \<longrightarrow>
            retry_queue (fst (raid5_complete_stripe_request (raid5_submit_rw_request ex_busy_cache ex_late_write) (ex_obj 0))) (raid_ch ex_late_write) = [] \<and>
            last (trace (fst (raid5_complete_stripe_request (raid5_submit_rw_request ex_busy_cache ex_late_write) (ex_obj 0)))) =
              Ev_wait_cb WCB_raid5_submit_rw_request ex_late_write"
    by blast
  then have c: "retry_queue (fst (raid5_complete_stripe_request (raid5_submit_rw_request ex_busy_cache ex_late_write) (ex_obj 0))) 0 = [] \<and>
            last (trace (fst (raid5_complete_stripe_request (raid5_submit_rw_request ex_busy_cache ex_late_write) (ex_obj 0)))) =
              Ev_wait_cb WCB_raid5_submit_rw_request ex_late_write"
    unfolding b ch by (simp add: s q0)
  have g: "raid5_get_stripe ex_busy_cache 2 = (None, ex_busy_cache)"
    by (rule t [THEN conjunct1])
  have q: "retry_queue (raid5_submit_rw_request ex_busy_cache ex_late_write) 0 =
     [(WCB_raid5_submit_rw_request, ex_late_write)]"
    by (simp add: s)
  have tr: "trace (raid5_submit_rw_request ex_busy_cache ex_late_write) = []"
    by (simp add: s q0)
  from g q tr c show ?thesis by blast
qed

section \<open>A write of a full stripe\<close>

text \<open>
  The preread range of a chunk depends only on the request windows, and a chunk without a
  preread is bound to its buffer at most: nothing is submitted.
\<close>

lemma write_preread_cong:
  assumes "map req_blocks (chunks r') = map req_blocks (chunks r)"
    and "map req_offset (chunks r') = map req_offset (chunks r)"
    and "length (chunks r') = length (chunks r)"
    and "parity_chunk r' = parity_chunk r" and "first_data_chunk r' = first_data_chunk r"
    and "last_data_chunk r' = last_data_chunk r" and "raid_io r' = raid_io r"
    and "c < length (chunks r)" and "parity_chunk r < length (chunks r)"
  shows "write_preread r' b c = write_preread r b c"
proof -
  have "req_blocks (chunks r' ! i) = req_blocks (chunks r ! i)"
       "req_offset (chunks r' ! i) = req_offset (chunks r ! i)" if "i < length (chunks r)" for i
    using map_eq_nth [OF assms(1), of i] map_eq_nth [OF assms(2), of i] that assms(3) by simp_all
  then show ?thesis
    using assms(4-9) by (simp add: write_preread_def Let_def)
qed

lemma bind_and_preread_idle:
  assumes "preread_blocks (chunks r ! c) = 0" and "c < length (chunks r)"
  shows "fst (bind_and_preread w r c) = w"
    "remaining (snd (bind_and_preread w r c)) = remaining r"
    "map preread_blocks (chunks (snd (bind_and_preread w r c))) = map preread_blocks (chunks r)"
  using assms
  by (simp_all add: bind_and_preread_def chunk_bind_buffer_def Let_def map_update_id)

lemma stripe_write_loop_idle:
  assumes "stripe_write_loop w r b cs = (w', r')"
    and "\<forall>c\<in>set cs. c < length (chunks r) \<and> snd (write_preread r b c) = 0"
    and "parity_chunk r < length (chunks r)"
  shows "w' = w \<and> remaining r' = remaining r \<and>
    (\<forall>i < length (chunks r). preread_blocks (chunks r' ! i) =
       (if i \<in> set cs then 0 else preread_blocks (chunks r ! i)))"
  using assms
proof (induction cs arbitrary: r)
  case Nil
  then show ?case by simp
next
  case (Cons c cs)
  obtain off blocks where wp: "write_preread r b c = (off, blocks)"
    by (cases "write_preread r b c")
  with Cons.prems(2) have z: "blocks = 0" by simp
  let ?r0 = "chunk_set_preread r c off 0"
  have c: "c < length (chunks r)" using Cons.prems(2) by simp
  have p0: "preread_blocks (chunks ?r0 ! c) = 0" and c0: "c < length (chunks ?r0)"
    using c by (simp_all add: chunk_set_preread_def)
  obtain w1 r1 where bp: "bind_and_preread w ?r0 c = (w1, r1)"
    by (cases "bind_and_preread w ?r0 c")
  note i = bind_and_preread_idle [OF p0 c0, of w, unfolded bp fst_conv snd_conv]
  note f = bind_and_preread_frame [OF bp c0]
  from Cons.prems(1) wp bp z i(1) have l: "stripe_write_loop w r1 b cs = (w', r')" by simp
  have len: "length (chunks r1) = length (chunks r)" using f(12) by simp
  have pc: "parity_chunk r1 < length (chunks r1)" using f(2) len Cons.prems(3) by simp
  have "write_preread r1 b c' = write_preread r b c'" if "c' \<in> set cs" for c'
    by (rule write_preread_cong)
       (use f that Cons.prems(2,3) in simp_all)
  then have h: "\<forall>c\<in>set cs. c < length (chunks r1) \<and> snd (write_preread r1 b c) = 0"
    using Cons.prems(2) len by simp
  note ih = Cons.IH [OF l h pc]
  have pr1: "preread_blocks (chunks r1 ! j) = (if j = c then 0 else preread_blocks (chunks r ! j))"
    if "j < length (chunks r)" for j
  proof -
    have "preread_blocks (chunks r1 ! j) = preread_blocks (chunks ?r0 ! j)"
      using map_eq_nth [OF i(3), of j] that len by simp
    then show ?thesis using that by (simp add: chunk_set_preread_def nth_list_update)
  qed
  show ?case
    using ih i(2) pr1 len by auto
qed


text \<open>
  Claim C5. Take a write stripe request without a degraded chunk, not yet in flight
  (\<open>remaining = 0\<close>), in which every data chunk is written over its whole strip. Then the
  balance of the vote is negative and the callback is \<open>raid5_stripe_write_preread_complete\<close>
  (reconstruct-write); after the planning loop no chunk has \<open>preread_blocks > 0\<close>, the world
  is the one before the loop (no preread was submitted) and \<open>remaining\<close> is still 0; and
  \<open>raid5_stripe_write\<close> is the call of the callback on the planned request in that world: the
  parity is computed and the writes are submitted inside this call.
\<close>

theorem full_stripe_write_is_reconstruct_write:
  assumes nd: "degraded_chunk r = None"
    and len: "length (chunks r) = num_base_bdevs (raid_bdev (raid_io r))"
    and par: "parity_chunk r < length (chunks r)"
    and fst_data: "first_data_chunk r \<in> set (for_each_data_chunk r)"
    and strip: "0 < strip_size (raid_bdev (raid_io r))"
    and full: "\<forall>c \<in> set (for_each_data_chunk r).
                 req_blocks (chunks r ! c) = strip_size (raid_bdev (raid_io r)) \<and>
                 req_offset (chunks r ! c) = 0"
    and rem: "remaining r = 0"
  shows "preread_balance_loop (set_parity_window r) 0 (for_each_data_chunk r) < 0 \<and>
         chunk_requests_complete_cb (snd (stripe_write_plan w r)) =
           CB_raid5_stripe_write_preread_complete \<and>
         (\<forall>c < length (chunks r). preread_blocks (chunks (snd (stripe_write_plan w r)) ! c) = 0) \<and>
         fst (stripe_write_plan w r) = w \<and>
         remaining (snd (stripe_write_plan w r)) = 0 \<and>
         raid5_stripe_write w r =
           raid5_stripe_write_preread_complete w (snd (stripe_write_plan w r))"
proof -
  let ?S = "strip_size (raid_bdev (raid_io r))"
  let ?p = "parity_chunk r"
  let ?rp = "set_parity_window r"
  let ?b = "preread_balance_loop ?rp 0 (for_each_data_chunk r)"
  let ?rc = "?rp\<lparr>chunk_requests_complete_cb := CB_raid5_stripe_write_preread_complete\<rparr>"
  have data: "c < length (chunks r) \<and> c \<noteq> ?p" if "c \<in> set (for_each_data_chunk r)" for c
    using that len by (simp add: for_each_data_chunk_def for_each_chunk_def)
  have data_iff: "c \<in> set (for_each_data_chunk r) \<longleftrightarrow> c < length (chunks r) \<and> c \<noteq> ?p" for c
    using len by (auto simp: for_each_data_chunk_def for_each_chunk_def)
  have f: "req_blocks (chunks r ! first_data_chunk r) = ?S"
          "req_offset (chunks r ! first_data_chunk r) = 0"
    using full fst_data by simp_all
  have pw: "req_blocks (chunks ?rp ! ?p) = ?S" "req_offset (chunks ?rp ! ?p) = 0"
    using par f by (auto simp: set_parity_window_def chunk_set_req_def Let_def)
  have dw: "req_blocks (chunks ?rp ! c) = ?S \<and> req_offset (chunks ?rp ! c) = 0"
    if "c \<in> set (for_each_data_chunk r)" for c
    using data [OF that] full that
    by (simp add: set_parity_window_def chunk_set_req_def Let_def)
  have "?b = (\<Sum>c\<leftarrow>for_each_data_chunk r. - 1)"
    unfolding preread_balance_loop_sum
    using dw pw strip by (simp cong: map_cong)
  then have b: "?b = - int (length (for_each_data_chunk r))"
    by (simp add: sum_list_triv)
  have "for_each_data_chunk r \<noteq> []" using fst_data by auto
  with b have neg: "?b < 0" by simp
  have plan: "stripe_write_plan w r = stripe_write_loop w ?rc ?b (for_each_chunk r)"
    using neg by (simp add: stripe_write_plan_def Let_def for_each_data_chunk_def for_each_chunk_def)
  have wp: "snd (write_preread ?rc ?b c) = 0" if "c < length (chunks r)" for c
  proof (cases "c = ?p")
    case True
    then show ?thesis using neg by (simp add: write_preread_def Let_def)
  next
    case False
    with that have "c \<in> set (for_each_data_chunk r)" by (simp add: data_iff)
    from dw [OF this] show ?thesis
      using neg False strip by (simp add: write_preread_def Let_def)
  qed
  obtain w' r' where l: "stripe_write_loop w ?rc ?b (for_each_chunk r) = (w', r')"
    by (cases "stripe_write_loop w ?rc ?b (for_each_chunk r)")
  have h: "\<forall>c\<in>set (for_each_chunk r). c < length (chunks ?rc) \<and> snd (write_preread ?rc ?b c) = 0"
    using wp len by (simp add: for_each_chunk_def)
  have pc: "parity_chunk ?rc < length (chunks ?rc)" using par by simp
  note idle = stripe_write_loop_idle [OF l h pc]
  have fr: "chunk_requests_complete_cb r' = CB_raid5_stripe_write_preread_complete"
    using stripe_write_loop_frame [OF l] h by simp
  have pre: "preread_blocks (chunks r' ! c) = 0" if "c < length (chunks r)" for c
    using idle that len by (simp add: for_each_chunk_def)
  have rm: "remaining r' = 0" using idle rem by simp
  have sw: "raid5_stripe_write w r = raid5_stripe_write_preread_complete w r'"
    using nd plan l idle rm fr
    by (simp add: raid5_stripe_write_def call_chunk_requests_complete_cb_def)
  show ?thesis
    using neg fr pre idle rm sw by (simp add: plan l)
qed


text \<open>The theorem at the write of the eight blocks of stripe 0 of the example array.\<close>

theorem full_stripe_write_is_reconstruct_write_witness:
  "preread_balance_loop (set_parity_window ex_full_stripe_write) 0
     (for_each_data_chunk ex_full_stripe_write) < 0 \<and>
   chunk_requests_complete_cb (snd (stripe_write_plan ex_world ex_full_stripe_write)) =
     CB_raid5_stripe_write_preread_complete \<and>
   map preread_blocks (chunks (snd (stripe_write_plan ex_world ex_full_stripe_write))) = [0, 0, 0] \<and>
   fst (stripe_write_plan ex_world ex_full_stripe_write) = ex_world \<and>
   remaining (snd (stripe_write_plan ex_world ex_full_stripe_write)) = 0 \<and>
   raid5_stripe_write ex_world ex_full_stripe_write =
     raid5_stripe_write_preread_complete ex_world
       (snd (stripe_write_plan ex_world ex_full_stripe_write))"
proof -
  let ?r = "ex_full_stripe_write"
  have r: "?r = \<lparr>req_id = 0, raid_io = ex_io SPDK_BDEV_IO_TYPE_WRITE 0 8 [replicate 64 170],
     stripe = 0, remaining = 0, status = SPDK_BDEV_IO_STATUS_SUCCESS,
     chunk_requests_complete_cb = CB_raid5_complete_stripe_request,
     iov_offset = 0, init_iov_offset = 0, first_data_chunk = 0, last_data_chunk = 1,
     parity_chunk = 2, degraded_chunk = None,
     chunks = [ex_chunk\<lparr>req_blocks := 4\<rparr>, ex_chunk\<lparr>index := 1, req_blocks := 4\<rparr>,
               ex_chunk\<lparr>index := 2\<rparr>]\<rparr>"
    by (simp add: ex_full_stripe_write_def plan_defs ex_defs Let_def upt_conv_Cons)
  have d: "for_each_data_chunk ?r = [0, 1]"
    unfolding r by (simp add: for_each_data_chunk_def for_each_chunk_def ex_defs upt_conv_Cons)
  have h1: "degraded_chunk ?r = None" unfolding r by simp
  have h2: "length (chunks ?r) = num_base_bdevs (raid_bdev (raid_io ?r))"
    unfolding r by (simp add: ex_io_def ex_raid_bdev_def)
  have h3: "parity_chunk ?r < length (chunks ?r)" unfolding r by simp
  have h4: "first_data_chunk ?r \<in> set (for_each_data_chunk ?r)"
    unfolding d unfolding r by simp
  have h5: "0 < strip_size (raid_bdev (raid_io ?r))"
    unfolding r by (simp add: ex_io_def ex_raid_bdev_def)
  have h6: "\<forall>c \<in> set (for_each_data_chunk ?r).
                 req_blocks (chunks ?r ! c) = strip_size (raid_bdev (raid_io ?r)) \<and>
                 req_offset (chunks ?r ! c) = 0"
    unfolding d unfolding r by (simp add: ex_defs)
  have h7: "remaining ?r = 0" unfolding r by simp
  note t = full_stripe_write_is_reconstruct_write [OF h1 h2 h3 h4 h5 h6 h7, of ex_world]
  have c3: "length (chunks ?r) = 3" unfolding r by simp
  have p: "snd (stripe_write_plan ex_world ?r) =
     ?r\<lparr>chunk_requests_complete_cb := CB_raid5_stripe_write_preread_complete,
        chunks := [ex_chunk\<lparr>req_blocks := 4, preread_offset := 4\<rparr>,
                   ex_chunk\<lparr>index := 1, req_blocks := 4, preread_offset := 4\<rparr>,
                   ex_chunk\<lparr>index := 2, req_blocks := 4, iov := replicate 32 7\<rparr>]\<rparr>"
    unfolding r
    by (simp add: write_plan_defs for_each_chunk_def for_each_data_chunk_def ex_defs Let_def
          upt_conv_Cons)
  have m: "map preread_blocks (chunks (snd (stripe_write_plan ex_world ?r))) = [0, 0, 0]"
    unfolding p by (simp add: ex_chunk_def)
  from t m show ?thesis by simp
qed

section \<open>A write that lies in two strips\<close>

text \<open>
  A request that arrives while the queue of its stripe is not empty is initialised and
  queued, and nothing else happens.
\<close>

lemma stripe_request_init_cong:
  "stripe_index (stripes w' ! sid) = stripe_index (stripes w ! sid) \<Longrightarrow>
   stripe_request_init w' obj rio sid so blocks io = stripe_request_init w obj rio sid so blocks io"
  by (simp add: stripe_request_init_def)

lemma handle_stripe_request_enqueue:
  assumes "stripe_request_mempool w = obj # pool" and "sid < length (stripes w)"
    and "requests (stripes w ! sid) \<noteq> []"
  shows "handle_stripe_request w rio sid so blocks io =
     w\<lparr>stripe_request_mempool := pool,
       stripes := (stripes w)[sid := (stripes w ! sid)
         \<lparr>requests := requests (stripes w ! sid) @
            [stripe_request_init w obj rio sid so blocks io]\<rparr>]\<rparr>"
proof -
  have "stripe_request_init (w\<lparr>stripe_request_mempool := pool\<rparr>) obj rio sid so blocks io =
        stripe_request_init w obj rio sid so blocks io"
    by (rule stripe_request_init_cong) simp
  then show ?thesis
    using assms by (simp add: handle_stripe_request_def Let_def)
qed

text \<open>
  Claim C6. Let \<open>raid5_handle_stripe\<close> be called, as \<open>raid5_submit_rw_request\<close> calls it, with
  all the blocks of an upstream WRITE outstanding, fewer blocks than a strip holds and more
  blocks than are left up to the end of the strip of \<open>stripe_offset\<close>. Then the call is two
  runs of the body that takes, initialises and queues a stripe request: the first for the
  \<open>strip_size - stripe_offset mod strip_size\<close> blocks up to the end of the strip, the second
  for the blocks that are left, from the start of the next strip and with \<open>iov_offset\<close>
  advanced by the bytes of the first part. When the pool holds two objects and the queue of
  the stripe is not empty, the result is the world with the two requests appended, in this
  order, to the queue of the stripe.
\<close>

theorem handle_stripe_splits_straddling_write:
  assumes "base_bdev_io_remaining w (io_id rio) = blocks"
    and "io_type rio = SPDK_BDEV_IO_TYPE_WRITE"
    and "blocks < strip_size (raid_bdev rio)"
    and "strip_size (raid_bdev rio) - stripe_offset mod strip_size (raid_bdev rio) < blocks"
  shows "raid5_handle_stripe w rio sid stripe_offset blocks iov_off =
           handle_stripe_request
             (handle_stripe_request w rio sid stripe_offset
                (strip_size (raid_bdev rio) - stripe_offset mod strip_size (raid_bdev rio)) iov_off)
             rio sid
             (stripe_offset + (strip_size (raid_bdev rio) - stripe_offset mod strip_size (raid_bdev rio)))
             (blocks - (strip_size (raid_bdev rio) - stripe_offset mod strip_size (raid_bdev rio)))
             (iov_off + (strip_size (raid_bdev rio) - stripe_offset mod strip_size (raid_bdev rio))
                * blocklen (raid_bdev rio)) \<and>
         (\<forall>o1 o2 pool.
            stripe_request_mempool w = o1 # o2 # pool \<and> sid < length (stripes w) \<and>
            requests (stripes w ! sid) \<noteq> [] \<longrightarrow>
            raid5_handle_stripe w rio sid stripe_offset blocks iov_off =
              w\<lparr>stripe_request_mempool := pool,
                stripes := (stripes w)[sid := (stripes w ! sid)
                  \<lparr>requests := requests (stripes w ! sid) @
                     [stripe_request_init w o1 rio sid stripe_offset
                        (strip_size (raid_bdev rio) - stripe_offset mod strip_size (raid_bdev rio))
                        iov_off,
                      stripe_request_init w o2 rio sid
                        (stripe_offset + (strip_size (raid_bdev rio) - stripe_offset mod strip_size (raid_bdev rio)))
                        (blocks - (strip_size (raid_bdev rio) - stripe_offset mod strip_size (raid_bdev rio)))
                        (iov_off + (strip_size (raid_bdev rio) - stripe_offset mod strip_size (raid_bdev rio))
                           * blocklen (raid_bdev rio))]\<rparr>]\<rparr>)"
proof -
  let ?bl = "strip_size (raid_bdev rio) - stripe_offset mod strip_size (raid_bdev rio)"
  have inner: "raid5_handle_stripe w rio sid stripe_offset ?bl iov_off =
               handle_stripe_request w rio sid stripe_offset ?bl iov_off"
    using assms(1,4) by (subst raid5_handle_stripe.simps) simp
  have split: "raid5_handle_stripe w rio sid stripe_offset blocks iov_off =
           handle_stripe_request
             (handle_stripe_request w rio sid stripe_offset ?bl iov_off)
             rio sid (stripe_offset + ?bl) (blocks - ?bl)
             (iov_off + ?bl * blocklen (raid_bdev rio))"
    using assms by (subst raid5_handle_stripe.simps) (simp add: Let_def inner)
  have two: "raid5_handle_stripe w rio sid stripe_offset blocks iov_off =
              w\<lparr>stripe_request_mempool := pool,
                stripes := (stripes w)[sid := (stripes w ! sid)
                  \<lparr>requests := requests (stripes w ! sid) @
                     [stripe_request_init w o1 rio sid stripe_offset ?bl iov_off,
                      stripe_request_init w o2 rio sid (stripe_offset + ?bl) (blocks - ?bl)
                        (iov_off + ?bl * blocklen (raid_bdev rio))]\<rparr>]\<rparr>"
    if h: "stripe_request_mempool w = o1 # o2 # pool" "sid < length (stripes w)"
      "requests (stripes w ! sid) \<noteq> []" for o1 o2 pool
  proof -
    let ?r1 = "stripe_request_init w o1 rio sid stripe_offset ?bl iov_off"
    let ?w1 = "w\<lparr>stripe_request_mempool := o2 # pool,
       stripes := (stripes w)[sid := (stripes w ! sid)
         \<lparr>requests := requests (stripes w ! sid) @ [?r1]\<rparr>]\<rparr>"
    have a: "handle_stripe_request w rio sid stripe_offset ?bl iov_off = ?w1"
      by (rule handle_stripe_request_enqueue [OF h])
    have c: "stripe_request_init ?w1 o2 rio sid so' b' i' = stripe_request_init w o2 rio sid so' b' i'"
      for so' b' i'
      by (rule stripe_request_init_cong) (use h(2) in simp)
    have b: "handle_stripe_request ?w1 rio sid so' b' i' =
       ?w1\<lparr>stripe_request_mempool := pool,
         stripes := (stripes ?w1)[sid := (stripes ?w1 ! sid)
           \<lparr>requests := requests (stripes ?w1 ! sid) @
              [stripe_request_init w o2 rio sid so' b' i']\<rparr>]\<rparr>" for so' b' i'
      using handle_stripe_request_enqueue [of ?w1 o2 pool sid rio so' b' i'] h(2)
      by (simp add: c)
    show ?thesis
      unfolding split a b using h(2) by simp
  qed
  from split two show ?thesis by blast
qed


text \<open>
  The write of the blocks 3 and 4 of stripe 0: the first part finds the queue empty and is
  submitted (it prereads block 3 of member 1), the second part is queued behind it.
\<close>

lemma ex_straddling_write_first:
  "handle_stripe_request ex_acquired ex_straddling_write 0 3 1 0 =
     ex_acquired\<lparr>stripe_request_mempool := [ex_obj 1],
       stripes := [(ex_stripe 0 1)\<lparr>requests := [(ex_obj 0)\<lparr>raid_io := ex_straddling_write,
           parity_chunk := 2, remaining := 1,
           chunk_requests_complete_cb := CB_raid5_stripe_write_preread_complete,
           chunks := [ex_chunk\<lparr>req_offset := 3, req_blocks := 1\<rparr>,
                      ex_chunk\<lparr>index := 1, preread_offset := 3, preread_blocks := 1,
                        iov := replicate 8 7, request_type := CHUNK_PREREAD\<rparr>,
                      ex_chunk\<lparr>index := 2, req_offset := 3, req_blocks := 1,
                        iov := replicate 8 7\<rparr>]\<rparr>]\<rparr>, ex_stripe 1 0],
       trace := [Ev_bdev_io 1 SPDK_BDEV_IO_TYPE_READ 3 1 [replicate 8 7]]\<rparr>"
  by (simp add: ex_acquired_def ex_straddling_write_def ex_defs dispatch_defs plan_defs
        raid5_stripe_write_def stripe_write_plan_def set_parity_window_def write_preread_def
        bind_and_preread_def chunk_bind_buffer_def chunk_set_preread_def
        raid5_submit_chunk_request_def raid5_submit_chunk_request_inner_def
        chunk_iovs_def Let_def upt_conv_Cons)

theorem handle_stripe_splits_straddling_write_witness:
  "raid5_submit_rw_request ex_world ex_straddling_write =
     raid5_handle_stripe ex_acquired ex_straddling_write 0 3 2 0 \<and>
   raid5_handle_stripe ex_acquired ex_straddling_write 0 3 2 0 =
     handle_stripe_request (handle_stripe_request ex_acquired ex_straddling_write 0 3 1 0)
       ex_straddling_write 0 4 1 8 \<and>
   map (\<lambda>r. (iov_offset r, map req_offset (chunks r), map req_blocks (chunks r)))
     (requests (stripes (raid5_handle_stripe ex_acquired ex_straddling_write 0 3 2 0) ! 0)) =
     [(0, [3, 0, 3], [1, 0, 1]), (8, [0, 0, 0], [0, 1, 0])]"
proof -
  have s: "raid5_submit_rw_request ex_world ex_straddling_write =
     raid5_handle_stripe ex_acquired ex_straddling_write 0 3 2 0"
    by (simp add: raid5_submit_rw_request_def raid5_get_stripe_def stripe_blocks_def
        raid5_stripe_data_chunks_num_def ex_straddling_write_def ex_acquired_def ex_defs Let_def)
  have h1: "base_bdev_io_remaining ex_acquired (io_id ex_straddling_write) = 2"
    by (simp add: ex_acquired_def ex_straddling_write_def ex_io_def)
  have h2: "io_type ex_straddling_write = SPDK_BDEV_IO_TYPE_WRITE"
    by (simp add: ex_straddling_write_def ex_io_def)
  have h3: "2 < strip_size (raid_bdev ex_straddling_write)"
    by (simp add: ex_straddling_write_def ex_io_def ex_raid_bdev_def)
  have h4: "strip_size (raid_bdev ex_straddling_write) - 3 mod strip_size (raid_bdev ex_straddling_write) < 2"
    by (simp add: ex_straddling_write_def ex_io_def ex_raid_bdev_def)
  have a: "strip_size (raid_bdev ex_straddling_write) - 3 mod strip_size (raid_bdev ex_straddling_write) = 1"
    "blocklen (raid_bdev ex_straddling_write) = 8"
    by (simp_all add: ex_straddling_write_def ex_io_def ex_raid_bdev_def)
  note t = handle_stripe_splits_straddling_write [OF h1 h2 h3 h4, of 0 0, unfolded a]
  from t have split: "raid5_handle_stripe ex_acquired ex_straddling_write 0 3 2 0 =
     handle_stripe_request (handle_stripe_request ex_acquired ex_straddling_write 0 3 1 0)
       ex_straddling_write 0 4 1 8"
    by simp
  have second: "stripe_request_init w (ex_obj 1) ex_straddling_write 0 4 1 8 =
      (ex_obj 1)\<lparr>raid_io := ex_straddling_write, parity_chunk := 2, iov_offset := 8,
         init_iov_offset := 8, first_data_chunk := 1, last_data_chunk := 1,
         chunks := [ex_chunk, ex_chunk\<lparr>index := 1, req_blocks := 1\<rparr>, ex_chunk\<lparr>index := 2\<rparr>]\<rparr>"
    if "stripe_index (stripes w ! 0) = 0" for w
    using that
    by (simp add: ex_straddling_write_def ex_defs plan_defs Let_def upt_conv_Cons)
  let ?w1 = "handle_stripe_request ex_acquired ex_straddling_write 0 3 1 0"
  have p1: "stripe_request_mempool ?w1 = ex_obj 1 # []" "0 < length (stripes ?w1)"
    "requests (stripes ?w1 ! 0) \<noteq> []" "stripe_index (stripes ?w1 ! 0) = 0"
    unfolding ex_straddling_write_first
    by (simp_all add: ex_acquired_def ex_world_def ex_stripe_def)
  have q1: "map (\<lambda>r. (iov_offset r, map req_offset (chunks r), map req_blocks (chunks r)))
     (requests (stripes ?w1 ! 0)) = [(0, [3, 0, 3], [1, 0, 1])]"
    unfolding ex_straddling_write_first
    by (simp add: ex_acquired_def ex_world_def ex_stripe_def ex_obj_def ex_chunk_def)
  have q: "map (\<lambda>r. (iov_offset r, map req_offset (chunks r), map req_blocks (chunks r)))
     (requests (stripes (handle_stripe_request ?w1 ex_straddling_write 0 4 1 8) ! 0)) =
     [(0, [3, 0, 3], [1, 0, 1]), (8, [0, 0, 0], [0, 1, 0])]"
    unfolding handle_stripe_request_enqueue [OF p1(1,2,3)] second [OF p1(4)]
    using p1(2) q1 by (simp add: ex_obj_def ex_chunk_def)
  from s split q show ?thesis by simp
qed

end
